theory Spec2Isabelle
  imports Main "HOL-Library.Sublist"
begin

section \<open>JavaScript values\<close>

text \<open>
  The ask router (\<^verbatim>\<open>src/unnamed/part_001\<close>) works on untyped JavaScript values: the
  classifier hands back whatever \<^verbatim>\<open>JSON.parse\<close> produced, and the handler reads it with
  \<^verbatim>\<open>||\<close>, \<^verbatim>\<open>.length\<close>, \<^verbatim>\<open>for ... of\<close> and computed member access. The embedding keeps
  these values untyped. Strings are lists of characters (code points below 256);
  numbers are the integers (the only numbers the handler itself produces are lengths).
  An object is the list of its own properties in insertion order, each key once.
\<close>

datatype json =
    JNull
  | JBool bool
  | JNum int
  | JStr string
  | JArr "json list"
  | JObj "(string \<times> json) list"

text \<open>A thrown value: an \<^verbatim>\<open>Error\<close> object, of which the code only reads \<^verbatim>\<open>message\<close>.\<close>

datatype js_error = Error (message: string)

text \<open>ToBoolean, as applied by \<^verbatim>\<open>!x\<close>, \<^verbatim>\<open>x || y\<close> and \<^verbatim>\<open>if (x)\<close>.\<close>

fun truthy :: "json \<Rightarrow> bool" where
  "truthy JNull = False"
| "truthy (JBool b) = b"
| "truthy (JNum n) = (n \<noteq> 0)"
| "truthy (JStr s) = (s \<noteq> [])"
| "truthy (JArr _) = True"
| "truthy (JObj _) = True"

text \<open>\<^verbatim>\<open>x || d\<close> where \<^verbatim>\<open>x\<close> is a property read (\<open>None\<close> is \<^verbatim>\<open>undefined\<close>).\<close>

definition or_else :: "json option \<Rightarrow> json \<Rightarrow> json" where
  "or_else x d = (case x of None \<Rightarrow> d | Some v \<Rightarrow> if truthy v then v else d)"

text \<open>The same for a string that may be absent, as the query parameters are.\<close>

definition present :: "string option \<Rightarrow> bool" where
  "present x = (case x of None \<Rightarrow> False | Some s \<Rightarrow> s \<noteq> [])"

subsection \<open>Decimal rendering and ToString\<close>

definition digit :: "nat \<Rightarrow> char" where
  "digit d = char_of (48 + d)"

function show_nat :: "nat \<Rightarrow> string" where
  "show_nat n = (if n < 10 then [digit n] else show_nat (n div 10) @ [digit (n mod 10)])"
  by pat_completeness auto
termination
  by (relation "measure id") auto

declare show_nat.simps [simp del]

definition show_int :: "int \<Rightarrow> string" where
  "show_int i = (if i < 0 then CHR ''-'' # show_nat (nat (- i)) else show_nat (nat i))"

text \<open>\<^verbatim>\<open>Array.prototype.join\<close> on strings.\<close>

fun join :: "string \<Rightarrow> string list \<Rightarrow> string" where
  "join sep [] = []"
| "join sep [x] = x"
| "join sep (x # y # ys) = x @ sep @ join sep (y # ys)"

text \<open>The results of a list of evaluations, up to the first that throws.\<close>

fun all_or_thrown :: "(js_error + 'a) list \<Rightarrow> js_error + 'a list" where
  "all_or_thrown [] = Inr []"
| "all_or_thrown (x # xs) =
     (case x of
        Inl err \<Rightarrow> Inl err
      | Inr v \<Rightarrow> (case all_or_thrown xs of Inl err \<Rightarrow> Inl err | Inr vs \<Rightarrow> Inr (v # vs)))"

text \<open>
  ToString, as applied by a template literal and by a computed property key. A number
  renders in decimal, as JavaScript does below \<open>10\<^sup>2\<^sup>1\<close>. An array renders its elements
  from left to right, separated by commas, \<^verbatim>\<open>null\<close> elements as the empty string. An
  object renders through the \<^verbatim>\<open>toString\<close> it inherits; when it has an own property of
  that name, which in parsed JSON is never a function, the conversion finds nothing to
  call that returns a primitive and throws a TypeError (\<open>Inl\<close>).
\<close>

fun js_toString :: "json \<Rightarrow> js_error + string" where
  "js_toString JNull = Inr ''null''"
| "js_toString (JBool b) = Inr (if b then ''true'' else ''false'')"
| "js_toString (JNum n) = Inr (show_int n)"
| "js_toString (JStr s) = Inr s"
| "js_toString (JArr xs) =
     (case all_or_thrown (map (\<lambda>x. if x = JNull then Inr [] else js_toString x) xs) of
        Inl err \<Rightarrow> Inl err
      | Inr parts \<Rightarrow> Inr (join '','' parts))"
| "js_toString (JObj kvs) =
     (if map_of kvs ''toString'' = None then Inr ''[object Object]''
      else Inl (Error ''Cannot convert object to primitive value''))"

subsection \<open>Property reads\<close>

text \<open>
  \<^verbatim>\<open>v.name\<close> for a fixed name that no prototype defines (\<^verbatim>\<open>stores\<close>,
  \<^verbatim>\<open>split_questions\<close>, \<^verbatim>\<open>unanswered\<close>, \<^verbatim>\<open>question\<close>, \<^verbatim>\<open>messages\<close>): reading it from \<^verbatim>\<open>null\<close>
  throws a TypeError (\<open>Inl\<close>), from an object it is the own property, from anything else
  it is \<^verbatim>\<open>undefined\<close>.
\<close>

definition field :: "json \<Rightarrow> string \<Rightarrow> js_error + json option" where
  "field v name =
     (case v of
        JNull \<Rightarrow>
          Inl (Error (''Cannot read properties of null (reading '' @ [CHR 0x27] @ name
                      @ [CHR 0x27] @ '')''))
      | JObj kvs \<Rightarrow> Inr (map_of kvs name)
      | _ \<Rightarrow> Inr None)"

text \<open>\<^verbatim>\<open>v.length\<close> of a value that is not \<^verbatim>\<open>null\<close>.\<close>

definition js_length :: "json \<Rightarrow> json option" where
  "js_length v =
     (case v of
        JArr xs \<Rightarrow> Some (JNum (int (length xs)))
      | JStr s \<Rightarrow> Some (JNum (int (length s)))
      | JObj kvs \<Rightarrow> map_of kvs ''length''
      | _ \<Rightarrow> None)"

text \<open>
  The own property of a value under a key: a property of an object, the element of an
  array or the character of a string at a canonical index, or their length.
\<close>

definition own_property :: "json \<Rightarrow> string \<Rightarrow> json option" where
  "own_property base k =
     (case base of
        JObj kvs \<Rightarrow> map_of kvs k
      | JArr xs \<Rightarrow>
          (if k = ''length'' then Some (JNum (int (length xs)))
           else map_of (zip (map show_nat [0..<length xs]) xs) k)
      | JStr s \<Rightarrow>
          (if k = ''length'' then Some (JNum (int (length s)))
           else map_of (zip (map show_nat [0..<length s]) (map (\<lambda>c. JStr [c]) s)) k)
      | _ \<Rightarrow> None)"

text \<open>
  A value read from a member need not be JSON data: under a key such as \<^verbatim>\<open>constructor\<close>,
  \<^verbatim>\<open>toString\<close> or \<^verbatim>\<open>__proto__\<close> every value has a member that it inherits from its
  prototype. Such a member is a function or a prototype object; it is truthy, a template
  literal renders it without throwing, and \<^verbatim>\<open>JSON.stringify\<close> leaves a function out of
  the object that holds it (\<open>Builtin None\<close>) and writes a prototype object as some JSON
  value (\<open>Builtin (Some j)\<close>).
\<close>

datatype js_value = Data json | Builtin "json option"

text \<open>
  \<^verbatim>\<open>base[k]\<close> on a base that is not \<^verbatim>\<open>null\<close>, for a key already converted to a string: the
  own property when there is one, else the inherited member. Which members a value
  inherits depends on the runtime, so the prototype chain is the parameter \<open>inherited\<close>:
  \<open>inherited base k\<close> is \<open>None\<close> when no prototype of \<open>base\<close> has a member \<open>k\<close>.
\<close>

definition js_member ::
  "(json \<Rightarrow> string \<Rightarrow> json option option) \<Rightarrow> json \<Rightarrow> string \<Rightarrow> js_value option" where
  "js_member inherited base k =
     (case own_property base k of
        Some v \<Rightarrow> Some (Data v)
      | None \<Rightarrow> map_option Builtin (inherited base k))"

text \<open>
  The error, if any, of converting a value to a primitive. A comparison with a number
  converts its operand with the inherited \<^verbatim>\<open>valueOf\<close> first, which returns an object or an
  array as it is, and then as ToString does, so it throws exactly where ToString throws.
\<close>

definition primitive_error :: "json \<Rightarrow> js_error option" where
  "primitive_error j = (case js_toString j of Inl err \<Rightarrow> Some err | Inr s \<Rightarrow> None)"

text \<open>What a template literal does with a value read from a member: the error, if any.\<close>

definition print_error :: "js_value \<Rightarrow> js_error option" where
  "print_error v = (case v of Builtin written \<Rightarrow> None | Data j \<Rightarrow> primitive_error j)"

text \<open>The property \<^verbatim>\<open>k: v\<close> of an object literal as \<^verbatim>\<open>JSON.stringify\<close> writes it.\<close>

definition written_property :: "string \<Rightarrow> js_value \<Rightarrow> (string \<times> json) list" where
  "written_property k v =
     (case v of
        Data j \<Rightarrow> [(k, j)]
      | Builtin None \<Rightarrow> []
      | Builtin (Some j) \<Rightarrow> [(k, j)])"

text \<open>
  The iteration protocol of \<^verbatim>\<open>for (const x of v)\<close>: an array yields its elements, a string
  its characters, and anything else is not iterable (TypeError).
\<close>

definition iterate :: "json \<Rightarrow> js_error + json list" where
  "iterate v =
     (case v of
        JArr xs \<Rightarrow> Inr xs
      | JStr s \<Rightarrow> Inr (map (\<lambda>c. JStr [c]) s)
      | _ \<Rightarrow> Inl (Error ''predictedStores is not iterable''))"

section \<open>String helpers of the JavaScript library\<close>

text \<open>White space as \<^verbatim>\<open>trim\<close> and the regular expression class \<^verbatim>\<open>\s\<close> see it, below 256.\<close>

definition is_space :: "char \<Rightarrow> bool" where
  "is_space c = (of_char c \<in> {9, 10, 11, 12, 13, 32, 160 :: nat})"

definition trim :: "string \<Rightarrow> string" where
  "trim s = rev (dropWhile is_space (rev (dropWhile is_space s)))"

text \<open>\<^verbatim>\<open>s.indexOf(c)\<close> and \<^verbatim>\<open>s.lastIndexOf(c)\<close> for a one-character pattern; \<open>None\<close> is -1.\<close>

fun indexOf :: "string \<Rightarrow> char \<Rightarrow> nat option" where
  "indexOf [] c = None"
| "indexOf (x # xs) c = (if x = c then Some 0 else map_option Suc (indexOf xs c))"

definition lastIndexOf :: "string \<Rightarrow> char \<Rightarrow> nat option" where
  "lastIndexOf s c = map_option (\<lambda>i. length s - 1 - i) (indexOf (rev s) c)"

text \<open>\<^verbatim>\<open>s.slice(a, b)\<close> for indices within the string; empty when \<open>b \<le> a\<close>.\<close>

definition slice :: "string \<Rightarrow> nat \<Rightarrow> nat \<Rightarrow> string" where
  "slice s a b = take (b - a) (drop a s)"

text \<open>\<^verbatim>\<open>s.includes(p)\<close>.\<close>

fun str_includes :: "string \<Rightarrow> string \<Rightarrow> bool" where
  "str_includes [] p = (p = [])"
| "str_includes (x # xs) p = (prefix p (x # xs) \<or> str_includes xs p)"

text \<open>
  \<^verbatim>\<open>s.split(/\s+/)\<close>: the pieces between maximal runs of white space (a run at either
  end leaves an empty piece there; the empty string splits into one empty piece).
\<close>

fun split_ws :: "string \<Rightarrow> string \<Rightarrow> string list" where
  "split_ws cur [] = [cur]"
| "split_ws cur (c # cs) =
     (if is_space c then
        (case cs of
           [] \<Rightarrow> [cur, []]
         | d # _ \<Rightarrow> if is_space d then split_ws cur cs else cur # split_ws [] cs)
      else split_ws (cur @ [c]) cs)"

text \<open>\<^verbatim>\<open>email.replace(/[^a-zA-Z0-9@._-]/g, "_")\<close>.\<close>

definition safe_char :: "char \<Rightarrow> bool" where
  "safe_char c =
     (let n = (of_char c :: nat) in
      (97 \<le> n \<and> n \<le> 122) \<or> (65 \<le> n \<and> n \<le> 90) \<or> (48 \<le> n \<and> n \<le> 57)
      \<or> c = CHR ''@'' \<or> c = CHR ''.'' \<or> c = CHR ''_'' \<or> c = CHR ''-'')"

definition sanitize :: "string \<Rightarrow> string" where
  "sanitize email = map (\<lambda>c. if safe_char c then c else CHR ''_'') email"

section \<open>Reading JSON text\<close>

text \<open>
  \<^verbatim>\<open>JSON.parse\<close> belongs to the runtime, so the classifier below takes it as a parameter
  (\<open>None\<close> for a SyntaxError) and every general statement holds for any such function.
  To run the code on concrete texts, \<open>JSON_parse\<close> reads the fragment of JSON without
  string escapes and with integer numbers; a repeated key keeps its first position and
  its last value, as in JavaScript.
\<close>

definition is_json_ws :: "char \<Rightarrow> bool" where
  "is_json_ws c = (of_char c \<in> {9, 10, 13, 32 :: nat})"

definition is_digit :: "char \<Rightarrow> bool" where
  "is_digit c = (48 \<le> (of_char c :: nat) \<and> (of_char c :: nat) \<le> 57)"

definition dquote :: char where
  "dquote = CHR 0x22"

definition backslash :: char where
  "backslash = CHR 0x5C"

fun set_prop :: "string \<Rightarrow> json \<Rightarrow> (string \<times> json) list \<Rightarrow> (string \<times> json) list" where
  "set_prop k v [] = [(k, v)]"
| "set_prop k v ((k', v') # kvs) =
     (if k = k' then (k, v) # kvs else (k', v') # set_prop k v kvs)"

fun parse_chars :: "string \<Rightarrow> string \<Rightarrow> (string \<times> string) option" where
  "parse_chars acc [] = None"
| "parse_chars acc (c # cs) =
     (if c = dquote then Some (acc, cs)
      else if c = backslash \<or> (of_char c :: nat) < 32 then None
      else parse_chars (acc @ [c]) cs)"

definition digits_value :: "string \<Rightarrow> int" where
  "digits_value ds = foldl (\<lambda>a c. 10 * a + (int (of_char c) - 48)) 0 ds"

definition parse_number :: "string \<Rightarrow> (json \<times> string) option" where
  "parse_number s =
     (let neg = (s \<noteq> [] \<and> hd s = CHR ''-'');
          body = (if neg then tl s else s);
          ds = takeWhile is_digit body;
          rest = dropWhile is_digit body
      in if ds = [] \<or> (hd ds = CHR ''0'' \<and> length ds > 1) then None
         else Some (JNum (if neg then - digits_value ds else digits_value ds), rest))"

fun parse_value :: "nat \<Rightarrow> string \<Rightarrow> (json \<times> string) option"
  and parse_elements :: "nat \<Rightarrow> json list \<Rightarrow> string \<Rightarrow> (json \<times> string) option"
  and parse_members :: "nat \<Rightarrow> (string \<times> json) list \<Rightarrow> string \<Rightarrow> (json \<times> string) option"
where
  "parse_value 0 s = None"
| "parse_value (Suc n) s =
     (case dropWhile is_json_ws s of
        [] \<Rightarrow> None
      | c # cs \<Rightarrow>
          if c = CHR ''{'' then
            (case dropWhile is_json_ws cs of
               [] \<Rightarrow> None
             | d # ds \<Rightarrow> if d = CHR ''}'' then Some (JObj [], ds) else parse_members n [] cs)
          else if c = CHR ''['' then
            (case dropWhile is_json_ws cs of
               [] \<Rightarrow> None
             | d # ds \<Rightarrow> if d = CHR '']'' then Some (JArr [], ds) else parse_elements n [] cs)
          else if c = dquote then map_option (\<lambda>(str, r). (JStr str, r)) (parse_chars [] cs)
          else if prefix ''null'' (c # cs) then Some (JNull, drop 4 (c # cs))
          else if prefix ''true'' (c # cs) then Some (JBool True, drop 4 (c # cs))
          else if prefix ''false'' (c # cs) then Some (JBool False, drop 5 (c # cs))
          else parse_number (c # cs))"
| "parse_elements 0 acc s = None"
| "parse_elements (Suc n) acc s =
     (case parse_value n s of
        None \<Rightarrow> None
      | Some (v, r) \<Rightarrow>
          (case dropWhile is_json_ws r of
             [] \<Rightarrow> None
           | d # ds \<Rightarrow>
               if d = CHR '','' then parse_elements n (acc @ [v]) ds
               else if d = CHR '']'' then Some (JArr (acc @ [v]), ds)
               else None))"
| "parse_members 0 acc s = None"
| "parse_members (Suc n) acc s =
     (case dropWhile is_json_ws s of
        [] \<Rightarrow> None
      | q # cs \<Rightarrow>
          if q \<noteq> dquote then None
          else
            (case parse_chars [] cs of
               None \<Rightarrow> None
             | Some (k, r) \<Rightarrow>
                 (case dropWhile is_json_ws r of
                    [] \<Rightarrow> None
                  | colon # r' \<Rightarrow>
                      if colon \<noteq> CHR '':'' then None
                      else
                        (case parse_value n r' of
                           None \<Rightarrow> None
                         | Some (v, r'') \<Rightarrow>
                             (case dropWhile is_json_ws r'' of
                                [] \<Rightarrow> None
                              | d # ds \<Rightarrow>
                                  if d = CHR '','' then parse_members n (set_prop k v acc) ds
                                  else if d = CHR ''}'' then Some (JObj (set_prop k v acc), ds)
                                  else None)))))"

text \<open>
  The whole text must be one value. The reader runs with fuel for \<open>2 * length s + 2\<close>
  nested calls, which the texts it is used on below do not exhaust.
\<close>

definition JSON_parse :: "string \<Rightarrow> json option" where
  "JSON_parse s =
     (case parse_value (2 * length s + 2) s of
        None \<Rightarrow> None
      | Some (v, r) \<Rightarrow> if dropWhile is_json_ws r = [] then Some v else None)"

section \<open>Collaborators of the ask router\<close>

text \<open>
  The student and university files, the generative model and the retrieval service
  (\<^verbatim>\<open>./rag\<close>) are outside the router; it reaches them through the functions below. What
  they return is data of the shapes the router reads: a field that may be missing is an
  \<open>option\<close>, a call that may throw returns the thrown error as a value.
\<close>

record store_ref =
  storeName :: string
  accountEmail :: "string option"

record student =
  universityEmail :: string
  accessibleStores :: "store_ref list option"

text \<open>\<open>apiKey\<close> is \<^verbatim>\<open>university.apiKeyInfo?.key\<close>.\<close>

record university =
  apiKey :: "string option"

text \<open>
  \<^verbatim>\<open>model.generateContent\<close> is called with the bare question (direct mode) or with the
  question under the classifier's system prompt, which is fixed text around the list of
  store names. \<open>GenText t\<close> is the text the code extracts from the result, empty when the
  result carries none.
\<close>

datatype gen_request = Prompt string | Classify "string list" string

datatype gen_outcome = GenThrew js_error | GenText string

text \<open>\<open>ctx_text\<close> is \<^verbatim>\<open>chunk.retrievedContext?.text\<close>.\<close>

datatype chunk = Chunk (ctx_text: "string option")

text \<open>
  \<open>groundingChunks\<close> is \<^verbatim>\<open>data.grounding_metadata?.groundingChunks\<close>, a list when it is
  there; an element of the list that is \<^verbatim>\<open>null\<close> is \<open>None\<close>.
\<close>

record rag_data =
  response_text :: "string option"
  groundingChunks :: "chunk option list option"

record rag_resp =
  success :: bool
  data :: "rag_data option"

datatype rag_outcome = RagThrew js_error | RagReturned "rag_resp option"

text \<open>
  \<open>getGenerativeModel env m\<close> is \<open>None\<close> when the SDK hands out a model for the name \<open>m\<close>
  and the error it throws otherwise. \<open>askQuestion env n key store q\<close> is what the retrieval
  service does on the call \<^verbatim>\<open>RAGService.askQuestion(key, [store], q)\<close> when \<open>n\<close> calls were
  made before it in the request, so the service may answer a repeated query differently.
  \<open>now\<close> is the clock's ISO timestamp (one reading for the whole request) and
  \<open>newSessionId\<close> the identifier minted from the clock and the random source.
  \<open>inherited\<close> is the prototype chain of the runtime (see \<open>js_member\<close>). \<open>dirname\<close> is the
  directory of the module, as the list of its path segments, and \<open>write_succeeds env n p\<close>
  tells whether \<^verbatim>\<open>fs.writeFile\<close> succeeds on the file \<open>p\<close> when \<open>n\<close> writes were tried
  before it (it fails when the directory of \<open>p\<close> does not exist, for one).
\<close>

record env =
  readStudent :: "string \<Rightarrow> student option"
  readUniversity :: "string \<Rightarrow> university option"
  GEMINI_API_KEY :: "string option"
  parseJSON :: "string \<Rightarrow> json option"
  getGenerativeModel :: "string \<Rightarrow> js_error option"
  generateContent :: "string \<Rightarrow> string \<Rightarrow> gen_request \<Rightarrow> gen_outcome"
  askQuestion :: "nat \<Rightarrow> string option \<Rightarrow> json \<Rightarrow> js_value \<Rightarrow> rag_outcome"
  now :: string
  newSessionId :: string
  inherited :: "json \<Rightarrow> string \<Rightarrow> json option option"
  dirname :: "string list"
  write_succeeds :: "nat \<Rightarrow> string list \<Rightarrow> bool"

section \<open>Session files and provider logs\<close>

definition generateSessionName :: "json \<Rightarrow> string" where
  "generateSessionName question =
     (case question of
        JStr q \<Rightarrow>
          if q = [] then ''New Session''
          else
            (let words = split_ws [] (trim q) in
             if length words \<le> 10 then trim q else join '' '' (take 10 words) @ ''...'')
      | _ \<Rightarrow> ''New Session'')"

subsection \<open>Paths\<close>

text \<open>
  A path is the list of its segments from the root. \<^verbatim>\<open>path.join(dir, name)\<close> (POSIX) splits
  the name at every \<^verbatim>\<open>/\<close> and resolves the segments against the directory: an empty
  segment and \<^verbatim>\<open>.\<close> change nothing, \<^verbatim>\<open>..\<close> leaves the last directory reached so far.
\<close>

fun split_slash :: "string \<Rightarrow> string \<Rightarrow> string list" where
  "split_slash cur [] = [cur]"
| "split_slash cur (c # cs) =
     (if c = CHR ''/'' then cur # split_slash [] cs else split_slash (cur @ [c]) cs)"

fun resolve :: "string list \<Rightarrow> string list \<Rightarrow> string list" where
  "resolve dir [] = dir"
| "resolve dir (seg # segs) =
     (if seg = [] \<or> seg = ''.'' then resolve dir segs
      else if seg = ''..'' then resolve (butlast dir) segs
      else resolve (dir @ [seg]) segs)"

definition path_join :: "string list \<Rightarrow> string \<Rightarrow> string list" where
  "path_join dir name = resolve dir (split_slash [] name)"

definition CHAT_DIR :: "env \<Rightarrow> string list" where
  "CHAT_DIR env = dirname env @ [''database'', ''chat_sessions'']"

definition PROVIDER_LOGS_DIR :: "env \<Rightarrow> string list" where
  "PROVIDER_LOGS_DIR env = dirname env @ [''database'', ''provider_questions'']"

text \<open>The email is sanitised, the session identifier is not.\<close>

definition getSessionFile :: "env \<Rightarrow> string \<Rightarrow> string \<Rightarrow> string list" where
  "getSessionFile env email sessionId =
     path_join (CHAT_DIR env) (sanitize email @ ''__'' @ sessionId @ ''.json'')"

subsection \<open>Files\<close>

text \<open>
  A file that can be read holds text that \<^verbatim>\<open>JSON.parse\<close> rejects, or a JSON document. The
  disk is its files together with the number of writes tried so far; a write that fails
  leaves the files as they were.
\<close>

datatype stored = Unreadable | Doc json

record disk =
  files :: "string list \<rightharpoonup> stored"
  attempts :: nat

text \<open>\<^verbatim>\<open>await fs.writeFile(file, JSON.stringify(doc, null, 2))\<close>; \<open>False\<close> when it throws.\<close>

definition writeFile :: "env \<Rightarrow> disk \<Rightarrow> string list \<Rightarrow> json \<Rightarrow> bool \<times> disk" where
  "writeFile env d file doc =
     (if write_succeeds env (attempts d) file
      then (True, d \<lparr> files := (files d)(file \<mapsto> Doc doc), attempts := Suc (attempts d) \<rparr>)
      else (False, d \<lparr> attempts := Suc (attempts d) \<rparr>))"

definition write_error :: js_error where
  "write_error = Error ''ENOENT: no such file or directory''"

text \<open>\<^verbatim>\<open>JSON.parse(await fs.readFile(file, "utf8"))\<close>; \<open>None\<close> when either throws.\<close>

definition read_json :: "disk \<Rightarrow> string list \<Rightarrow> json option" where
  "read_json d file =
     (case files d file of
        None \<Rightarrow> None
      | Some Unreadable \<Rightarrow> None
      | Some (Doc doc) \<Rightarrow> Some doc)"

subsection \<open>Sessions\<close>

text \<open>
  The three statements between the read and the write of \<^verbatim>\<open>appendMessageToSessionFile\<close>,
  on whatever the file parsed to; \<open>Inl\<close> is a TypeError. Only an object whose \<^verbatim>\<open>messages\<close>
  is an array, or is falsy or missing and then replaced by the empty array, takes the
  message. On an array the assignments set named properties, which
  \<^verbatim>\<open>JSON.stringify\<close> does not write: the array is written back as it was. On a primitive
  the assignment has no effect and the call of \<^verbatim>\<open>push\<close> throws.
\<close>

definition push_message :: "json \<Rightarrow> json \<Rightarrow> string \<Rightarrow> js_error + json" where
  "push_message session messageObj clock =
     (case session of
        JNull \<Rightarrow>
          Inl (Error (''Cannot read properties of null (reading '' @ [CHR 0x27] @ ''messages''
                      @ [CHR 0x27] @ '')''))
      | JObj props \<Rightarrow>
          (case or_else (map_of props ''messages'') (JArr []) of
             JArr messages \<Rightarrow>
               Inr (JObj (set_prop ''updatedAt'' (JStr clock)
                            (set_prop ''messages'' (JArr (messages @ [messageObj])) props)))
           | _ \<Rightarrow> Inl (Error ''session.messages.push is not a function''))
      | JArr elements \<Rightarrow> Inr (JArr elements)
      | _ \<Rightarrow>
          Inl (Error (''Cannot read properties of undefined (reading '' @ [CHR 0x27] @ ''push''
                      @ [CHR 0x27] @ '')'')))"

definition fresh_session :: "string \<Rightarrow> string \<Rightarrow> string \<Rightarrow> string \<Rightarrow> json list \<Rightarrow> json" where
  "fresh_session sessionId sessionName email clock messages =
     JObj [(''sessionId'', JStr sessionId),
           (''sessionName'', JStr sessionName),
           (''email'', JStr email),
           (''createdAt'', JStr clock),
           (''updatedAt'', JStr clock),
           (''messages'', JArr messages)]"

text \<open>
  The \<^verbatim>\<open>catch\<close> of \<^verbatim>\<open>appendMessageToSessionFile\<close>: a fresh session with the one message. Its
  write is not guarded: when it throws, the function throws (\<open>Some\<close> error).
\<close>

definition write_fresh_session ::
  "env \<Rightarrow> disk \<Rightarrow> string \<Rightarrow> string \<Rightarrow> json \<Rightarrow> js_error option \<times> disk" where
  "write_fresh_session env d email sessionId messageObj =
     (case field messageObj ''question'' of
        Inl thrown \<Rightarrow> (Some thrown, d)
      | Inr q \<Rightarrow>
          (case writeFile env d (getSessionFile env email sessionId)
                  (fresh_session sessionId (generateSessionName (or_else q (JStr []))) email
                     (now env) [messageObj]) of
             (True, d') \<Rightarrow> (None, d')
           | (False, d') \<Rightarrow> (Some write_error, d')))"

text \<open>The function: \<open>None\<close> when it returns, \<open>Some\<close> error when it throws.\<close>

definition appendMessageToSessionFile ::
  "env \<Rightarrow> disk \<Rightarrow> string \<Rightarrow> string \<Rightarrow> json \<Rightarrow> js_error option \<times> disk" where
  "appendMessageToSessionFile env d email sessionId messageObj =
     (let file = getSessionFile env email sessionId in
      case read_json d file of
        None \<Rightarrow> write_fresh_session env d email sessionId messageObj
      | Some session \<Rightarrow>
          (case push_message session messageObj (now env) of
             Inl err \<Rightarrow> write_fresh_session env d email sessionId messageObj
           | Inr session' \<Rightarrow>
               (case writeFile env d file session' of
                  (True, d') \<Rightarrow> (None, d')
                | (False, d') \<Rightarrow> write_fresh_session env d' email sessionId messageObj)))"

definition createSessionFile ::
  "env \<Rightarrow> disk \<Rightarrow> string \<Rightarrow> string \<Rightarrow> string \<Rightarrow> js_error option \<times> disk" where
  "createSessionFile env d email sessionId sessionName =
     (case writeFile env d (getSessionFile env email sessionId)
             (fresh_session sessionId sessionName email (now env) []) of
        (True, d') \<Rightarrow> (None, d')
      | (False, d') \<Rightarrow> (Some write_error, d'))"

subsection \<open>Provider logs\<close>

text \<open>
  The log of a provider is an array of entries; a file that cannot be read or does not
  hold an array counts as the empty array. The function catches what it throws, a
  failing write included.
\<close>

definition appendProviderLog :: "env \<Rightarrow> disk \<Rightarrow> string \<Rightarrow> json \<Rightarrow> disk" where
  "appendProviderLog env d providerEmail logDoc =
     (let file = path_join (PROVIDER_LOGS_DIR env) (sanitize providerEmail @ ''.json'');
          arr = (case read_json d file of Some (JArr entries) \<Rightarrow> entries | _ \<Rightarrow> [])
      in snd (writeFile env d file (JArr (arr @ [logDoc]))))"

section \<open>The classifier\<close>

definition all_stores :: "string list \<Rightarrow> json" where
  "all_stores stores =
     JObj [(''stores'', JArr (map JStr stores)),
           (''split_questions'', JObj []),
           (''unanswered'', JArr [])]"

definition no_stores :: json where
  "no_stores =
     JObj [(''stores'', JArr []), (''split_questions'', JObj []), (''unanswered'', JArr [])]"

text \<open>The body of the \<^verbatim>\<open>try\<close> block of \<^verbatim>\<open>classifyStores\<close>; \<open>Inl\<close> is a throw inside it.\<close>

definition classify_try :: "env \<Rightarrow> string option \<Rightarrow> string list \<Rightarrow> string \<Rightarrow> js_error + json" where
  "classify_try env geminiKey stores question =
     (case geminiKey of
        None \<Rightarrow> Inr (all_stores stores)
      | Some key \<Rightarrow>
          if key = [] then Inr (all_stores stores)
          else
            (case getGenerativeModel env ''gemini-1.5-flash'' of
               Some modelErr \<Rightarrow> Inl modelErr
             | None \<Rightarrow>
            (case generateContent env key ''gemini-1.5-flash'' (Classify stores question) of
               GenThrew err \<Rightarrow> Inl err
             | GenText txt \<Rightarrow>
                 if txt = [] then Inr no_stores
                 else
                   (let raw = trim txt in
                    case parseJSON env raw of
                      Some parsed \<Rightarrow> Inr parsed
                    | None \<Rightarrow>
                        (case (indexOf raw CHR ''{'', lastIndexOf raw CHR ''}'') of
                           (Some start, Some stop) \<Rightarrow>
                             (case parseJSON env (slice raw start (stop + 1)) of
                                Some parsed \<Rightarrow> Inr parsed
                              | None \<Rightarrow> Inr (all_stores stores))
                         | _ \<Rightarrow> Inr (all_stores stores))))))"

text \<open>The \<^verbatim>\<open>catch\<close> around it turns every throw into the all-stores result.\<close>

definition classifyStores :: "env \<Rightarrow> string option \<Rightarrow> string list \<Rightarrow> string \<Rightarrow> js_error + json" where
  "classifyStores env geminiKey stores question =
     (case classify_try env geminiKey stores question of
        Inl err \<Rightarrow> Inr (all_stores stores)
      | Inr result \<Rightarrow> Inr result)"

section \<open>The ask handler\<close>

text \<open>
  A request is the four query parameters. The handler's result is the response it sends
  (status and JSON body) and the writes that its detached task goes through afterwards,
  in order, as long as none of them throws; \<open>classified\<close> and \<open>rag_calls\<close> record whether the
  classifier was invoked and which (store, sub-question) pairs were sent to the
  retrieval service.
\<close>

record request =
  q_email :: "string option"
  q_question :: "string option"
  q_sessionId :: "string option"
  q_isCampusSearch :: "string option"

datatype effect =
    CreateSessionFile string string string
  | AppendMessage string string json
  | AppendProviderLog string json

record outcome =
  status :: nat
  body :: json
  background :: "effect list"
  classified :: bool
  rag_calls :: "(json \<times> js_value) list"

text \<open>
  The detached task performs its writes one after the other inside one \<^verbatim>\<open>try\<close>: a write
  that throws ends the task, and what was written before stays.
\<close>

fun perform :: "env \<Rightarrow> disk \<Rightarrow> effect \<Rightarrow> js_error option \<times> disk" where
  "perform env d (CreateSessionFile email sessionId sessionName) =
     createSessionFile env d email sessionId sessionName"
| "perform env d (AppendMessage email sessionId messageObj) =
     appendMessageToSessionFile env d email sessionId messageObj"
| "perform env d (AppendProviderLog providerEmail logDoc) =
     (None, appendProviderLog env d providerEmail logDoc)"

fun run_background :: "env \<Rightarrow> disk \<Rightarrow> effect list \<Rightarrow> disk" where
  "run_background env d [] = d"
| "run_background env d (e # es) =
     (case perform env d e of
        (Some err, d') \<Rightarrow> d'
      | (None, d') \<Rightarrow> run_background env d' es)"

definition reply :: "nat \<Rightarrow> json \<Rightarrow> outcome" where
  "reply code b =
     \<lparr> status = code, body = b, background = [], classified = False, rag_calls = [] \<rparr>"

text \<open>The outer \<^verbatim>\<open>catch\<close>, reached before any response was sent.\<close>

definition internal_error :: "env \<Rightarrow> js_error \<Rightarrow> json" where
  "internal_error env err =
     JObj [(''error'', JStr ''Internal Server Error''),
           (''details'', JStr (message err)),
           (''timestamp'', JStr (now env))]"

definition opt_str :: "string option \<Rightarrow> json" where
  "opt_str x = (case x of None \<Rightarrow> JNull | Some s \<Rightarrow> JStr s)"

text \<open>\<^verbatim>\<open>university?.apiKeyInfo?.key || null\<close>, then the environment variable.\<close>

definition resolve_key :: "env \<Rightarrow> student \<Rightarrow> string option" where
  "resolve_key env student =
     (let geminiKey =
            (case readUniversity env (universityEmail student) of
               None \<Rightarrow> None
             | Some university \<Rightarrow> if present (apiKey university) then apiKey university else None)
      in if \<not> present geminiKey \<and> present (GEMINI_API_KEY env) then GEMINI_API_KEY env
         else geminiKey)"

text \<open>The pair \<^verbatim>\<open>(isNewSession, currentSessionId)\<close>.\<close>

definition session_for :: "env \<Rightarrow> string option \<Rightarrow> bool \<times> string" where
  "session_for env sessionId =
     (case sessionId of
        None \<Rightarrow> (True, newSessionId env)
      | Some sid \<Rightarrow> if sid = [] then (True, newSessionId env) else (False, sid))"

definition create_if_new :: "bool \<Rightarrow> string \<Rightarrow> string \<Rightarrow> string \<Rightarrow> effect list" where
  "create_if_new isNewSession email currentSessionId question =
     (if isNewSession
      then [CreateSessionFile email currentSessionId (generateSessionName (JStr question))]
      else [])"

subsection \<open>Direct mode\<close>

definition modelsToTry :: "string list" where
  "modelsToTry = [''gemini-1.5-flash'', ''gemini-pro'', ''models/gemini-1.5-flash'']"

text \<open>The pair \<^verbatim>\<open>(statusCode, errorMessage)\<close> chosen from the thrown error's message.\<close>

definition gemini_error :: "string \<Rightarrow> nat \<times> string" where
  "gemini_error msg =
     (if str_includes msg ''API key'' \<or> str_includes msg ''auth''
        then (401, ''Invalid or unauthorized API key'')
      else if str_includes msg ''quota'' \<or> str_includes msg ''exceeded''
        then (429, ''API quota exceeded or rate limited'')
      else if str_includes msg ''network'' \<or> str_includes msg ''connect''
        then (503, ''Network error connecting to Gemini API'')
      else if str_includes msg ''model''
        then (400, ''Gemini model not available'')
      else (500, ''Failed to call Gemini API''))"

definition direct_gemini :: "env \<Rightarrow> student \<Rightarrow> string \<Rightarrow> string \<Rightarrow> string option \<Rightarrow> outcome" where
  "direct_gemini env student email question sessionId =
     (case resolve_key env student of
        None \<Rightarrow>
          reply 400
            (JObj [(''error'', JStr ''No API key available for Gemini call''),
                   (''details'',
                    JStr ''Check university API key or set GEMINI_API_KEY environment variable'')])
      | Some geminiKey \<Rightarrow>
          (case find (\<lambda>modelCandidate. getGenerativeModel env modelCandidate = None)
                  modelsToTry of
             None \<Rightarrow>
               reply 400
                 (JObj [(''error'', JStr ''No compatible Gemini model found''),
                        (''availableModels'', JArr (map JStr modelsToTry))])
           | Some modelName \<Rightarrow>
               (case generateContent env geminiKey modelName (Prompt question) of
                  GenText txt \<Rightarrow>
                    (let answerText = (if txt = [] then ''No response from Gemini'' else txt);
                         (isNewSession, currentSessionId) = session_for env sessionId;
                         messageObj =
                           JObj [(''role'', JStr ''assistant''),
                                 (''question'', JStr question),
                                 (''answer'', JStr answerText),
                                 (''storesUsed'', JArr []),
                                 (''grounding'', JArr []),
                                 (''timestamp'', JStr (now env)),
                                 (''isCampusSearch'', JBool False),
                                 (''method'', JStr ''direct_gemini''),
                                 (''model'', JStr modelName)]
                     in \<lparr> status = 200,
                          body =
                            JObj [(''sessionId'', JStr currentSessionId),
                                  (''answer'', JStr answerText),
                                  (''storesUsed'', JArr []),
                                  (''grounding'', JArr []),
                                  (''isCampusSearch'', JBool False),
                                  (''modelUsed'', JStr modelName),
                                  (''timestamp'', JStr (now env))],
                          background =
                            create_if_new isNewSession email currentSessionId question
                            @ [AppendMessage email currentSessionId messageObj],
                          classified = False,
                          rag_calls = [] \<rparr>)
                | GenThrew geminiErr \<Rightarrow>
                    (let (statusCode, errorMessage) = gemini_error (message geminiErr)
                     in reply statusCode
                          (JObj [(''error'', JStr errorMessage),
                                 (''details'', JStr (message geminiErr)),
                                 (''suggestion'',
                                  JStr ''Check your API key, internet connection, and try a different model if available'')])))))"

subsection \<open>Campus mode: the retrieval loop\<close>

text \<open>
  An entry of \<^verbatim>\<open>ragResults\<close>. \<open>r_name\<close> is the store as a template literal renders it: the
  store is rendered at the top of the loop body, and rendering the same value again,
  for the label of the answer and the key of the split question, gives the same text.
\<close>

record rag_result =
  r_store :: json
  r_name :: string
  r_answerText :: string
  r_groundingChunks :: "chunk option list"

text \<open>
  The loop returns from the handler at a store whose retrieval gave no usable response
  (\<open>Aborted\<close>, with that store, its sub-question and the calls made so far), or throws
  outside the \<^verbatim>\<open>try\<close> of a store (\<open>Threw\<close>), or runs to the end (\<open>Completed\<close>, with
  \<^verbatim>\<open>ragResults\<close>, \<^verbatim>\<open>allGrounding\<close> and the calls made).
\<close>

datatype loop_result =
    Aborted json js_value "(json \<times> js_value) list"
  | Threw js_error "(json \<times> js_value) list"
  | Completed "rag_result list" "string list" "(json \<times> js_value) list"

text \<open>\<^verbatim>\<open>!ragResp || !ragResp.success || !ragResp.data\<close> fails exactly when this is \<open>None\<close>.\<close>

definition usable_data :: "rag_resp option \<Rightarrow> rag_data option" where
  "usable_data ragResp =
     (case ragResp of
        None \<Rightarrow> None
      | Some r \<Rightarrow> if success r then data r else None)"

text \<open>
  The loop over the chunks of one response: the texts pushed to \<^verbatim>\<open>allGrounding\<close>, and the
  TypeError that ends the loop at a chunk that is \<^verbatim>\<open>null\<close>.
\<close>

fun collect_texts :: "chunk option list \<Rightarrow> string list \<times> js_error option" where
  "collect_texts [] = ([], None)"
| "collect_texts (None # chunks) =
     ([], Some (Error (''Cannot read properties of null (reading '' @ [CHR 0x27]
                       @ ''retrievedContext'' @ [CHR 0x27] @ '')'')))"
| "collect_texts (Some chunk # chunks) =
     (let (texts, thrown) = collect_texts chunks in
      ((case ctx_text chunk of None \<Rightarrow> [] | Some t \<Rightarrow> if t = [] then [] else [t]) @ texts,
       thrown))"

text \<open>\<^verbatim>\<open>splitQuestions[store] || question\<close>, for the store rendered as \<open>name\<close>.\<close>

definition qForStore :: "env \<Rightarrow> json \<Rightarrow> string \<Rightarrow> string \<Rightarrow> js_value" where
  "qForStore env splitQuestions question name =
     (case js_member (inherited env) splitQuestions name of
        None \<Rightarrow> Data (JStr question)
      | Some (Builtin written) \<Rightarrow> Builtin written
      | Some (Data v) \<Rightarrow> if truthy v then Data v else Data (JStr question))"

text \<open>The entry that the \<^verbatim>\<open>catch\<close> of a store pushes.\<close>

definition error_entry :: "json \<Rightarrow> string \<Rightarrow> js_error \<Rightarrow> rag_result" where
  "error_entry store name ragErr =
     \<lparr> r_store = store, r_name = name,
       r_answerText = ''Error processing '' @ name @ '': '' @ message ragErr,
       r_groundingChunks = [] \<rparr>"

text \<open>
  The body of the loop first logs the store and its sub-question through two template
  literals, outside the \<^verbatim>\<open>try\<close>: a value that cannot be rendered ends the handler in its
  outer \<^verbatim>\<open>catch\<close>. The \<^verbatim>\<open>try\<close> spans the call, the push of the entry and the loop over the
  chunks; what is thrown there is caught and pushed as an entry of its own.
\<close>

fun rag_loop ::
  "env \<Rightarrow> string option \<Rightarrow> json \<Rightarrow> string \<Rightarrow> json list \<Rightarrow> rag_result list \<Rightarrow> string list
   \<Rightarrow> (json \<times> js_value) list \<Rightarrow> loop_result" where
  "rag_loop env geminiKey splitQuestions question [] ragResults allGrounding calls =
     Completed ragResults allGrounding calls"
| "rag_loop env geminiKey splitQuestions question (store # rest) ragResults allGrounding calls =
     (case js_toString store of
        Inl err \<Rightarrow> Threw err calls
      | Inr name \<Rightarrow>
          (let q = qForStore env splitQuestions question name in
           case print_error q of
             Some err \<Rightarrow> Threw err calls
           | None \<Rightarrow>
               (case askQuestion env (length calls) geminiKey store q of
                  RagThrew ragErr \<Rightarrow>
                    rag_loop env geminiKey splitQuestions question rest
                      (ragResults @ [error_entry store name ragErr])
                      allGrounding (calls @ [(store, q)])
                | RagReturned ragResp \<Rightarrow>
                    (case usable_data ragResp of
                       None \<Rightarrow> Aborted store q (calls @ [(store, q)])
                     | Some d \<Rightarrow>
                         (let answerText =
                                (case response_text d of None \<Rightarrow> [] | Some t \<Rightarrow> t);
                              chunks = (case groundingChunks d of None \<Rightarrow> [] | Some cs \<Rightarrow> cs);
                              (texts, thrown) = collect_texts chunks
                          in rag_loop env geminiKey splitQuestions question rest
                               (ragResults @
                                  [\<lparr> r_store = store, r_name = name,
                                     r_answerText = answerText,
                                     r_groundingChunks = chunks \<rparr>] @
                                  (case thrown of
                                     None \<Rightarrow> []
                                   | Some chunkErr \<Rightarrow> [error_entry store name chunkErr]))
                               (allGrounding @ texts)
                               (calls @ [(store, q)]))))))"

definition newline :: string where
  "newline = [CHR 0x0A]"

definition labelled :: "rag_result \<Rightarrow> string" where
  "labelled r = ''**'' @ r_name r @ ''**:'' @ newline @ r_answerText r"

definition merge_results :: "rag_result list \<Rightarrow> string" where
  "merge_results ragResults =
     (case ragResults of
        [r] \<Rightarrow> r_answerText r
      | _ \<Rightarrow> join (newline @ newline) (map labelled ragResults))"

text \<open>\<^verbatim>\<open>accessible.find(x => x.storeName === store)?.accountEmail || null\<close>.\<close>

definition provider_of :: "store_ref list \<Rightarrow> json \<Rightarrow> string option" where
  "provider_of accessible store =
     (case find (\<lambda>x. JStr (storeName x) = store) accessible of
        None \<Rightarrow> None
      | Some dept \<Rightarrow> if present (accountEmail dept) then accountEmail dept else None)"

text \<open>The log entry of a result, as it is written.\<close>

definition provider_log :: "env \<Rightarrow> store_ref list \<Rightarrow> string \<Rightarrow> json \<Rightarrow> string \<Rightarrow> rag_result \<Rightarrow> effect" where
  "provider_log env accessible email splitQuestions question r =
     (let providerEmail = provider_of accessible (r_store r) in
      AppendProviderLog (case providerEmail of None \<Rightarrow> ''unknown'' | Some e \<Rightarrow> e)
        (JObj ([(''provider_email'', opt_str providerEmail),
                (''user_email'', JStr email),
                (''store_name'', r_store r)]
               @ written_property ''question'' (qForStore env splitQuestions question (r_name r))
               @ [(''response'', JStr (take 500 (r_answerText r) @ ''...'')),
                  (''grounding_count'', JNum (int (length (r_groundingChunks r)))),
                  (''asked_at'', JStr (now env)),
                  (''isCampusSearch'', JBool True)])))"

subsection \<open>Campus mode: the three ways out after classification\<close>

definition no_departments :: "env \<Rightarrow> string \<Rightarrow> string \<Rightarrow> bool \<Rightarrow> string \<Rightarrow> json \<Rightarrow> outcome" where
  "no_departments env email question isNewSession currentSessionId unanswered =
     (let answerText = ''Sorry, none of the departments can answer this.'';
          messageObj =
            JObj [(''role'', JStr ''assistant''),
                  (''question'', JStr question),
                  (''answer'', JStr answerText),
                  (''storesUsed'', JArr []),
                  (''grounding'', JArr []),
                  (''timestamp'', JStr (now env)),
                  (''unresolvedParts'', unanswered),
                  (''isCampusSearch'', JBool True),
                  (''method'', JStr ''campus_search'')]
      in \<lparr> status = 200,
           body =
             JObj [(''sessionId'', JStr currentSessionId),
                   (''answer'', JStr answerText),
                   (''storesUsed'', JArr []),
                   (''unanswered'', unanswered),
                   (''isCampusSearch'', JBool True)],
           background =
             create_if_new isNewSession email currentSessionId question
             @ [AppendMessage email currentSessionId messageObj],
           classified = True,
           rag_calls = [] \<rparr>)"

definition rag_failed ::
  "env \<Rightarrow> store_ref list \<Rightarrow> string \<Rightarrow> string \<Rightarrow> bool \<Rightarrow> string \<Rightarrow> json \<Rightarrow> js_value
   \<Rightarrow> (json \<times> js_value) list \<Rightarrow> outcome" where
  "rag_failed env accessible email question isNewSession currentSessionId store q calls =
     (let answerText = ''Sorry we didn'' @ [CHR 0x27] @ ''t find any information related to this.'';
          searchedIn = provider_of accessible store;
          messageObj =
            JObj [(''role'', JStr ''assistant''),
                  (''question'', JStr question),
                  (''answer'', JStr answerText),
                  (''storesUsed'', JArr [store]),
                  (''grounding'', JArr []),
                  (''timestamp'', JStr (now env)),
                  (''searchedIn'', opt_str searchedIn),
                  (''isCampusSearch'', JBool True),
                  (''method'', JStr ''campus_search''),
                  (''ragError'', JBool True)]
      in \<lparr> status = 200,
           body =
             JObj [(''sessionId'', JStr currentSessionId),
                   (''answer'', JStr answerText),
                   (''searchedIn'', opt_str searchedIn),
                   (''isCampusSearch'', JBool True),
                   (''failedStore'', store)],
           background =
             create_if_new isNewSession email currentSessionId question
             @ [AppendMessage email currentSessionId messageObj]
             @ (case searchedIn of
                  None \<Rightarrow> []
                | Some provider \<Rightarrow>
                    [AppendProviderLog provider
                       (JObj ([(''provider_email'', JStr provider),
                               (''user_email'', JStr email),
                               (''store_name'', store)]
                              @ written_property ''question'' q
                              @ [(''response'', JNull),
                                 (''asked_at'', JStr (now env)),
                                 (''isCampusSearch'', JBool True),
                                 (''error'', JStr ''RAG call failed'')]))]),
           classified = True,
           rag_calls = calls \<rparr>)"

definition merged ::
  "env \<Rightarrow> store_ref list \<Rightarrow> string \<Rightarrow> string \<Rightarrow> bool \<Rightarrow> string \<Rightarrow> json \<Rightarrow> json
   \<Rightarrow> rag_result list \<Rightarrow> string list \<Rightarrow> (json \<times> js_value) list \<Rightarrow> outcome" where
  "merged env accessible email question isNewSession currentSessionId predictedStores
          splitQuestions ragResults allGrounding calls =
     (let finalAnswer = merge_results ragResults;
          messageObj =
            JObj [(''role'', JStr ''assistant''),
                  (''question'', JStr question),
                  (''answer'', JStr finalAnswer),
                  (''storesUsed'', predictedStores),
                  (''grounding'', JArr (map JStr allGrounding)),
                  (''timestamp'', JStr (now env)),
                  (''isCampusSearch'', JBool True),
                  (''method'', JStr ''campus_search''),
                  (''ragResultCount'', JNum (int (length ragResults)))]
      in \<lparr> status = 200,
           body =
             JObj [(''sessionId'', JStr currentSessionId),
                   (''answer'', JStr finalAnswer),
                   (''storesUsed'', predictedStores),
                   (''grounding'', JArr (map JStr (take 10 allGrounding))),
                   (''isCampusSearch'', JBool True),
                   (''totalGrounding'', JNum (int (length allGrounding))),
                   (''timestamp'', JStr (now env))],
           background =
             create_if_new isNewSession email currentSessionId question
             @ [AppendMessage email currentSessionId messageObj]
             @ map (provider_log env accessible email splitQuestions question) ragResults,
           classified = True,
           rag_calls = calls \<rparr>)"

subsection \<open>Campus mode\<close>

text \<open>
  What follows the classifier's return: the three property reads with their defaults
  (\<^verbatim>\<open>predictedStores\<close>, \<^verbatim>\<open>splitQuestions\<close>, \<^verbatim>\<open>unanswered\<close>) and the lines that log them, of
  which \<^verbatim>\<open>unanswered.length > 0\<close> converts the length to a primitive; then the test for an
  empty selection, and the loop over the selected stores. A TypeError (reading a
  property of \<^verbatim>\<open>null\<close>, converting an object that cannot be converted, iterating a value
  that is not iterable) reaches the outer \<^verbatim>\<open>catch\<close> before anything was sent.
\<close>

definition read_classification :: "json \<Rightarrow> js_error + json \<times> json \<times> json" where
  "read_classification classification =
     (case field classification ''stores'' of
        Inl err \<Rightarrow> Inl err
      | Inr stores_prop \<Rightarrow>
     (case field classification ''split_questions'' of
        Inl err \<Rightarrow> Inl err
      | Inr split_prop \<Rightarrow>
     (case field classification ''unanswered'' of
        Inl err \<Rightarrow> Inl err
      | Inr unanswered_prop \<Rightarrow>
          (let unanswered = or_else unanswered_prop (JArr []) in
           case (case js_length unanswered of
                   None \<Rightarrow> None
                 | Some n \<Rightarrow> primitive_error n) of
             Some err \<Rightarrow> Inl err
           | None \<Rightarrow>
               Inr (or_else stores_prop (JArr []), or_else split_prop (JObj []), unanswered)))))"

text \<open>How the handler ends once the loop has ended.\<close>

definition after_loop ::
  "env \<Rightarrow> store_ref list \<Rightarrow> string \<Rightarrow> string \<Rightarrow> bool \<Rightarrow> string \<Rightarrow> json \<Rightarrow> json
   \<Rightarrow> loop_result \<Rightarrow> outcome" where
  "after_loop env accessible email question isNewSession currentSessionId predictedStores
              splitQuestions result =
     (case result of
        Aborted store q calls \<Rightarrow>
          rag_failed env accessible email question isNewSession currentSessionId store q calls
      | Threw err calls \<Rightarrow>
          (reply 500 (internal_error env err)) \<lparr> classified := True, rag_calls := calls \<rparr>
      | Completed ragResults allGrounding calls \<Rightarrow>
          merged env accessible email question isNewSession currentSessionId
            predictedStores splitQuestions ragResults allGrounding calls)"

definition answer_classified ::
  "env \<Rightarrow> store_ref list \<Rightarrow> string option \<Rightarrow> string \<Rightarrow> string \<Rightarrow> bool \<Rightarrow> string \<Rightarrow> json
   \<Rightarrow> outcome" where
  "answer_classified env accessible geminiKey email question isNewSession currentSessionId
                     classification =
     (case read_classification classification of
        Inl err \<Rightarrow> (reply 500 (internal_error env err)) \<lparr> classified := True \<rparr>
      | Inr (predictedStores, splitQuestions, unanswered) \<Rightarrow>
          if js_length predictedStores = Some (JNum 0)
          then no_departments env email question isNewSession currentSessionId unanswered
          else
            (case iterate predictedStores of
               Inl err \<Rightarrow> (reply 500 (internal_error env err)) \<lparr> classified := True \<rparr>
             | Inr selected \<Rightarrow>
                 after_loop env accessible email question isNewSession currentSessionId
                   predictedStores splitQuestions
                   (rag_loop env geminiKey splitQuestions question selected [] [] [])))"

definition campus_search ::
  "env \<Rightarrow> student \<Rightarrow> store_ref list \<Rightarrow> string \<Rightarrow> string \<Rightarrow> string option \<Rightarrow> outcome" where
  "campus_search env student accessible email question sessionId =
     (let storeNames = map storeName accessible in
      if storeNames = [] then
        reply 200
          (JObj [(''sessionId'', JNull),
                 (''answer'', JStr ''No RAG stores available for your account.''),
                 (''storesUsed'', JArr []),
                 (''grounding'', JArr []),
                 (''isCampusSearch'', JBool True)])
      else
        (let geminiKey = resolve_key env student;
             (isNewSession, currentSessionId) = session_for env sessionId
         in case classifyStores env geminiKey storeNames question of
              Inl err \<Rightarrow> (reply 500 (internal_error env err)) \<lparr> classified := True \<rparr>
            | Inr classification \<Rightarrow>
                answer_classified env accessible geminiKey email question isNewSession
                  currentSessionId classification))"

subsection \<open>The handler\<close>

definition ask :: "env \<Rightarrow> request \<Rightarrow> outcome" where
  "ask env req =
     (case (q_email req, q_question req) of
        (Some email, Some question) \<Rightarrow>
          if email = [] \<or> question = [] then
            reply 400 (JObj [(''error'', JStr ''email & question required'')])
          else
            (case readStudent env email of
               None \<Rightarrow> reply 404 (JObj [(''error'', JStr ''Student not found'')])
             | Some student \<Rightarrow>
                 (let accessible =
                        (case accessibleStores student of None \<Rightarrow> [] | Some a \<Rightarrow> a);
                      shouldDoCampusSearch = (q_isCampusSearch req \<noteq> Some ''false'')
                  in if \<not> shouldDoCampusSearch
                     then direct_gemini env student email question (q_sessionId req)
                     else campus_search env student accessible email question (q_sessionId req)))
      | _ \<Rightarrow> reply 400 (JObj [(''error'', JStr ''email & question required'')]))"

section \<open>Vocabulary of the specification\<close>

text \<open>
  The definitions of this section are not part of the program: they name what the
  specification talks about, so that its statements can be compared with the code.
\<close>

text \<open>
  A model output that "cannot be parsed as JSON, neither by strict parse nor by
  extracting the substring between the first \<^verbatim>\<open>{\<close> and the last \<^verbatim>\<open>}\<close>".
\<close>

definition unparsable :: "(string \<Rightarrow> json option) \<Rightarrow> string \<Rightarrow> bool" where
  "unparsable parse raw =
     (parse raw = None \<and>
      (case (indexOf raw CHR ''{'', lastIndexOf raw CHR ''}'') of
         (Some start, Some stop) \<Rightarrow> parse (slice raw start (stop + 1)) = None
       | _ \<Rightarrow> True))"

text \<open>
  The invariant of a Classification Result: \<^verbatim>\<open>stores\<close> is a list drawn from the input
  store names, and every key of \<^verbatim>\<open>split_questions\<close> is one of \<^verbatim>\<open>stores\<close>.
\<close>

definition classification_invariant :: "string list \<Rightarrow> json \<Rightarrow> bool" where
  "classification_invariant stores result =
     (case result of
        JObj props \<Rightarrow>
          (case (map_of props ''stores'', map_of props ''split_questions'') of
             (Some (JArr selected), Some (JObj split)) \<Rightarrow>
               list_all (\<lambda>s. s \<in> set (map JStr stores)) selected
               \<and> list_all (\<lambda>k. JStr k \<in> set selected) (map fst split)
           | _ \<Rightarrow> False)
      | _ \<Rightarrow> False)"

text \<open>
  A campus-mode request by a known user: both parameters are present, the user
  directory knows the email, and the campus flag is not the string \<^verbatim>\<open>false\<close>;
  \<open>accessible\<close> is the user's list of store references.
\<close>

definition campus_request ::
  "env \<Rightarrow> request \<Rightarrow> string \<Rightarrow> string \<Rightarrow> student \<Rightarrow> store_ref list \<Rightarrow> bool" where
  "campus_request env req email question student accessible =
     (q_email req = Some email \<and> email \<noteq> [] \<and> q_question req = Some question
      \<and> question \<noteq> [] \<and> readStudent env email = Some student
      \<and> accessible = (case accessibleStores student of None \<Rightarrow> [] | Some a \<Rightarrow> a)
      \<and> q_isCampusSearch req \<noteq> Some ''false'')"

text \<open>
  The classifier's verdict as the handler reads it: the selected stores, the split
  questions and the unanswered fragments; \<open>None\<close> when reading it throws.
\<close>

definition selection ::
  "env \<Rightarrow> student \<Rightarrow> store_ref list \<Rightarrow> string \<Rightarrow> (json \<times> json \<times> json) option" where
  "selection env student accessible question =
     (case classifyStores env (resolve_key env student) (map storeName accessible) question of
        Inl err \<Rightarrow> None
      | Inr classification \<Rightarrow>
          (case read_classification classification of
             Inl err \<Rightarrow> None
           | Inr verdict \<Rightarrow> Some verdict))"

text \<open>
  What the retrieval service does when the stores of the given names are queried one
  after the other, the first of them on call number \<open>n\<close>.
\<close>

fun responses ::
  "env \<Rightarrow> string option \<Rightarrow> json \<Rightarrow> string \<Rightarrow> nat \<Rightarrow> string list \<Rightarrow> rag_outcome list" where
  "responses env geminiKey splitQuestions question n [] = []"
| "responses env geminiKey splitQuestions question n (name # rest) =
     askQuestion env n geminiKey (JStr name) (qForStore env splitQuestions question name)
     # responses env geminiKey splitQuestions question (Suc n) rest"

text \<open>
  The sub-questions of the stores of the given names can all be logged: rendering none
  of them throws. This is so whenever they are strings.
\<close>

definition loggable :: "env \<Rightarrow> json \<Rightarrow> string \<Rightarrow> string list \<Rightarrow> bool" where
  "loggable env splitQuestions question names =
     list_all (\<lambda>name. print_error (qForStore env splitQuestions question name) = None) names"

text \<open>
  A clean failure is a call that returns without a success indicator or without data.
  A call succeeds when it returns both, with evidence chunks none of which is \<^verbatim>\<open>null\<close>.
  A call may also throw.
\<close>

definition clean_failure :: "rag_outcome \<Rightarrow> bool" where
  "clean_failure out =
     (case out of RagThrew err \<Rightarrow> False | RagReturned ragResp \<Rightarrow> usable_data ragResp = None)"

text \<open>The answer text and the evidence chunks of a response that carries data.\<close>

definition answer_text :: "rag_outcome \<Rightarrow> string" where
  "answer_text out =
     (case out of
        RagThrew err \<Rightarrow> []
      | RagReturned ragResp \<Rightarrow>
          (case usable_data ragResp of
             None \<Rightarrow> []
           | Some d \<Rightarrow> (case response_text d of None \<Rightarrow> [] | Some t \<Rightarrow> t)))"

definition chunks_of :: "rag_outcome \<Rightarrow> chunk option list" where
  "chunks_of out =
     (case out of
        RagThrew err \<Rightarrow> []
      | RagReturned ragResp \<Rightarrow>
          (case usable_data ragResp of
             None \<Rightarrow> []
           | Some d \<Rightarrow> (case groundingChunks d of None \<Rightarrow> [] | Some cs \<Rightarrow> cs)))"

definition succeeded :: "rag_outcome \<Rightarrow> bool" where
  "succeeded out =
     (case out of
        RagThrew err \<Rightarrow> False
      | RagReturned ragResp \<Rightarrow>
          usable_data ragResp \<noteq> None \<and> snd (collect_texts (chunks_of out)) = None)"

text \<open>The evidence texts that a response adds to the sequence of all evidence.\<close>

definition texts_of :: "rag_outcome \<Rightarrow> string list" where
  "texts_of out = fst (collect_texts (chunks_of out))"

text \<open>
  The entries of the result list for a store whose call did not fail cleanly: the error
  entry of a call that threw; else the entry of the answer, followed by an error entry
  when a chunk was \<^verbatim>\<open>null\<close>.
\<close>

definition entries_of :: "string \<Rightarrow> rag_outcome \<Rightarrow> rag_result list" where
  "entries_of name out =
     (case out of
        RagThrew err \<Rightarrow> [error_entry (JStr name) name err]
      | RagReturned ragResp \<Rightarrow>
          [\<lparr> r_store = JStr name, r_name = name, r_answerText = answer_text out,
             r_groundingChunks = chunks_of out \<rparr>]
          @ (case snd (collect_texts (chunks_of out)) of
               None \<Rightarrow> []
             | Some chunkErr \<Rightarrow> [error_entry (JStr name) name chunkErr]))"

text \<open>The writes to a provider's log among the writes of the detached task.\<close>

definition is_provider_log :: "effect \<Rightarrow> bool" where
  "is_provider_log e = (case e of AppendProviderLog provider entry \<Rightarrow> True | _ \<Rightarrow> False)"


section \<open>Scenarios\<close>

text \<open>
  The members that every object inherits from \<^verbatim>\<open>Object.prototype\<close>: functions, but for
  \<^verbatim>\<open>__proto__\<close>, which is the prototype itself and is written as an empty object. The
  scenarios read members of objects only.
\<close>

definition object_members :: "json \<Rightarrow> string \<Rightarrow> json option option" where
  "object_members base k =
     (if k = ''__proto__'' then Some (Some (JObj []))
      else if k \<in> set [''constructor'', ''toString'', ''toLocaleString'', ''valueOf'',
                        ''hasOwnProperty'', ''isPrototypeOf'', ''propertyIsEnumerable'',
                        ''__defineGetter__'', ''__defineSetter__'', ''__lookupGetter__'',
                        ''__lookupSetter__'']
      then Some None
      else None)"

text \<open>
  In the scenarios the module lives in \<^verbatim>\<open>/app\<close>. The directories of the chat sessions
  and of the provider logs exist, as the module creates them when it is loaded, and no
  other directory does: a write succeeds in these two directories and fails anywhere
  else.
\<close>

definition data_directories :: "string list list" where
  "data_directories =
     [[''app'', ''database'', ''chat_sessions''], [''app'', ''database'', ''provider_questions'']]"

definition in_data_directory :: "nat \<Rightarrow> string list \<Rightarrow> bool" where
  "in_data_directory n file = (file \<noteq> [] \<and> butlast file \<in> set data_directories)"

text \<open>
  Concrete collaborators on which the handler is run: one student, \<^verbatim>\<open>ana@uni.edu\<close>, whose
  university holds the API key \<open>key\<close>; a generative model that always answers \<open>gen\<close>; a
  retrieval service whose answer to the \<open>n\<close>-th call depends on the store only.
\<close>

definition demo_student :: "store_ref list \<Rightarrow> student" where
  "demo_student accessible =
     \<lparr> universityEmail = ''office@uni.edu'', accessibleStores = Some accessible \<rparr>"

definition demo_env ::
  "store_ref list \<Rightarrow> string option \<Rightarrow> gen_outcome \<Rightarrow> (nat \<Rightarrow> json \<Rightarrow> rag_outcome) \<Rightarrow> env" where
  "demo_env accessible key gen rag =
     \<lparr> readStudent = (\<lambda>e. if e = ''ana@uni.edu'' then Some (demo_student accessible) else None),
       readUniversity = (\<lambda>e. Some \<lparr> apiKey = key \<rparr>),
       GEMINI_API_KEY = None,
       parseJSON = JSON_parse,
       getGenerativeModel = (\<lambda>m. None),
       generateContent = (\<lambda>k m r. gen),
       askQuestion = (\<lambda>n k store q. rag n store),
       now = ''2024-05-01T10:00:00.000Z'',
       newSessionId = ''session_1714557600000_k3x9aa'',
       inherited = object_members,
       dirname = [''app''],
       write_succeeds = in_data_directory \<rparr>"

definition library_ref :: store_ref where
  "library_ref = \<lparr> storeName = ''library'', accountEmail = Some ''lib@uni.edu'' \<rparr>"

text \<open>A retrieval that returns without success indicator and without data.\<close>

definition no_data :: rag_outcome where
  "no_data = RagReturned (Some \<lparr> success = False, data = None \<rparr>)"

text \<open>The model names a store that is not on the list it was given.\<close>

definition gym_reply :: string where
  "gym_reply = ''{\"stores\":[\"gym\"],\"split_questions\":{},\"unanswered\":[]}''"

definition gym_env :: env where
  "gym_env =
     demo_env [library_ref] (Some ''key'') (GenText gym_reply) (\<lambda>n store. no_data)"

text \<open>The model answers in prose, and the model answers with nothing.\<close>

definition prose_env :: env where
  "prose_env =
     demo_env [library_ref] (Some ''key'') (GenText ''The library can answer this.'')
       (\<lambda>n store. no_data)"

definition silent_env :: env where
  "silent_env = demo_env [library_ref] (Some ''key'') (GenText []) (\<lambda>n store. no_data)"

definition finance_ref :: store_ref where
  "finance_ref = \<lparr> storeName = ''finance'', accountEmail = Some ''fin@uni.edu'' \<rparr>"

definition sports_ref :: store_ref where
  "sports_ref = \<lparr> storeName = ''sports'', accountEmail = Some ''sports@uni.edu'' \<rparr>"

text \<open>Requests by the student, in campus mode and in direct mode.\<close>

definition the_question :: string where
  "the_question = ''When does the library open and what do I owe?''"

definition campus_req :: request where
  "campus_req =
     \<lparr> q_email = Some ''ana@uni.edu'',
       q_question = Some the_question,
       q_sessionId = None,
       q_isCampusSearch = None \<rparr>"

text \<open>The same request for a session whose identifier contains a slash.\<close>

definition slash_req :: request where
  "slash_req = campus_req \<lparr> q_sessionId := Some ''a/b'' \<rparr>"

definition direct_req :: request where
  "direct_req =
     \<lparr> q_email = Some ''ana@uni.edu'',
       q_question = Some the_question,
       q_sessionId = None,
       q_isCampusSearch = Some ''false'' \<rparr>"

text \<open>A retrieval that succeeds with an answer and its evidence fragments.\<close>

definition found :: "string \<Rightarrow> string list \<Rightarrow> rag_outcome" where
  "found text evidence =
     RagReturned (Some \<lparr> success = True,
                         data = Some \<lparr> response_text = Some text,
                                       groundingChunks =
                                         Some (map (\<lambda>t. Some (Chunk (Some t))) evidence) \<rparr> \<rparr>)"

text \<open>The model selects two stores and splits the question between them.\<close>

definition both_reply :: string where
  "both_reply =
     ''{\"stores\":[\"library\",\"finance\"],\"split_questions\":{\"library\":\"When does the library open?\",\"finance\":\"What do I owe?\"},\"unanswered\":[]}''"

definition both_env :: env where
  "both_env =
     demo_env [library_ref, finance_ref] (Some ''key'') (GenText both_reply)
       (\<lambda>n store. if store = JStr ''library'' then found ''Open 8 to 20.'' [''Hours: 8-20'']
                   else found ''You owe 40.'' [''Ledger'', ''Balance: 40''])"

definition three_refs :: "store_ref list" where
  "three_refs = [library_ref, finance_ref, sports_ref]"

text \<open>
  Three stores and no API key, so that the classifier selects all three; the retrieval
  for \<^verbatim>\<open>finance\<close> returns without data (\<open>broken_env\<close>) or throws (\<open>shaky_env\<close>).
\<close>

definition broken_env :: env where
  "broken_env =
     demo_env three_refs None (GenText [])
       (\<lambda>n store. if store = JStr ''finance'' then no_data
                   else if store = JStr ''library'' then found ''Open 8 to 20.'' [''Hours: 8-20'']
                   else found ''The gym opens at 7.'' [])"

definition shaky_env :: env where
  "shaky_env =
     demo_env three_refs None (GenText [])
       (\<lambda>n store. if store = JStr ''finance'' then RagThrew (Error ''socket hang up'')
                   else if store = JStr ''library'' then found ''Open 8 to 20.'' [''Hours: 8-20'']
                   else found ''The gym opens at 7.'' [])"



text \<open>One store whose answer comes with twelve evidence fragments.\<close>

definition fragments :: "string \<Rightarrow> nat \<Rightarrow> string list" where
  "fragments name n = map (\<lambda>i. name @ '' '' @ show_nat i) [0..<n]"

definition archive_env :: env where
  "archive_env =
     demo_env [library_ref] None (GenText [])
       (\<lambda>n store. found ''See the archive.'' (fragments ''fragment'' 12))"


text \<open>A student without stores, and a model that rejects the API key.\<close>

definition nostore_env :: env where
  "nostore_env = demo_env [] (Some ''key'') (GenText both_reply) (\<lambda>n store. no_data)"

definition denied_env :: env where
  "denied_env =
     demo_env [library_ref] (Some ''key'')
       (GenThrew (Error ''API key not valid. Please pass a valid API key.''))
       (\<lambda>n store. no_data)"





definition empty_disk :: disk where
  "empty_disk = \<lparr> files = Map.empty, attempts = 0 \<rparr>"



section \<open>The classifier: what it returns\<close>

lemma classifyStores_cases:
  "classifyStores env geminiKey stores question =
     (case geminiKey of
        None \<Rightarrow> Inr (all_stores stores)
      | Some key \<Rightarrow>
          if key = [] then Inr (all_stores stores)
          else
            (case getGenerativeModel env ''gemini-1.5-flash'' of
               Some modelErr \<Rightarrow> Inr (all_stores stores)
             | None \<Rightarrow>
            (case generateContent env key ''gemini-1.5-flash'' (Classify stores question) of
               GenThrew err \<Rightarrow> Inr (all_stores stores)
             | GenText txt \<Rightarrow>
                 if txt = [] then Inr no_stores
                 else
                   (case parseJSON env (trim txt) of
                      Some parsed \<Rightarrow> Inr parsed
                    | None \<Rightarrow>
                        (case (indexOf (trim txt) CHR ''{'', lastIndexOf (trim txt) CHR ''}'') of
                           (Some start, Some stop) \<Rightarrow>
                             (case parseJSON env (slice (trim txt) start (stop + 1)) of
                                Some parsed \<Rightarrow> Inr parsed
                              | None \<Rightarrow> Inr (all_stores stores))
                         | _ \<Rightarrow> Inr (all_stores stores))))))"
  by (simp add: classifyStores_def classify_try_def Let_def
           split: option.splits gen_outcome.splits prod.splits)

lemma invariant_all_stores: "classification_invariant stores (all_stores stores)"
  by (simp add: classification_invariant_def all_stores_def list_all_iff)

lemma invariant_no_stores: "classification_invariant stores no_stores"
  by (simp add: classification_invariant_def no_stores_def)

text \<open>
  Claim C1 says that the classifier's result always has \<^verbatim>\<open>stores\<close> within the input list
  and the keys of \<^verbatim>\<open>split_questions\<close> within \<^verbatim>\<open>stores\<close>, whatever JSON the model writes.
  The code returns the parsed model output as it is: with the stores \<^verbatim>\<open>["library"]\<close> and a
  model that answers \<^verbatim>\<open>{"stores":["gym"],...}\<close>, the result selects \<^verbatim>\<open>gym\<close>.
\<close>

theorem classifyStores_invariant_counterexample:
  "classifyStores gym_env (Some ''key'') [''library''] ''When does the gym open?''
     = Inr (JObj [(''stores'', JArr [JStr ''gym'']), (''split_questions'', JObj []),
                  (''unanswered'', JArr [])])
   \<and> \<not> classification_invariant [''library'']
         (JObj [(''stores'', JArr [JStr ''gym'']), (''split_questions'', JObj []),
                (''unanswered'', JArr [])])"
  by code_simp

text \<open>
  Claim C1, amended: for every question and store list, the result of \<^verbatim>\<open>classifyStores\<close>
  either satisfies the invariant (this is so whenever the key is missing, the model call
  fails, the output is empty or cannot be parsed), or it is the value that \<^verbatim>\<open>JSON.parse\<close>
  read from the model's non-empty output, strictly or between the first \<^verbatim>\<open>{\<close> and the last
  \<^verbatim>\<open>}\<close>, returned without validation.
\<close>

theorem classifyStores_invariant_unless_parsed:
  assumes "classifyStores env geminiKey stores question = Inr result"
  shows "classification_invariant stores result
         \<or> (\<exists>key txt. geminiKey = Some key \<and> key \<noteq> []
              \<and> getGenerativeModel env ''gemini-1.5-flash'' = None
              \<and> generateContent env key ''gemini-1.5-flash'' (Classify stores question)
                  = GenText txt
              \<and> txt \<noteq> []
              \<and> (parseJSON env (trim txt) = Some result
                  \<or> (\<exists>start stop. indexOf (trim txt) CHR ''{'' = Some start
                        \<and> lastIndexOf (trim txt) CHR ''}'' = Some stop
                        \<and> parseJSON env (slice (trim txt) start (stop + 1)) = Some result)))"
  using assms
  by (auto simp add: classifyStores_cases invariant_all_stores invariant_no_stores
           split: option.splits gen_outcome.splits prod.splits if_splits)

text \<open>The amended claim at a model that answers in prose: the fallback keeps the invariant.\<close>

theorem classifyStores_invariant_unless_parsed_witness:
  "classifyStores prose_env (Some ''key'') [''library''] ''When does the library open?''
     = Inr (all_stores [''library''])
   \<and> classification_invariant [''library''] (all_stores [''library''])"
proof -
  have h: "classifyStores prose_env (Some ''key'') [''library''] ''When does the library open?''
             = Inr (all_stores [''library''])"
    by code_simp
  have g: "generateContent prose_env ''key'' ''gemini-1.5-flash''
             (Classify [''library''] ''When does the library open?'')
           = GenText ''The library can answer this.''"
    by (simp add: prose_env_def demo_env_def)
  have p: "parseJSON prose_env (trim ''The library can answer this.'') = None"
    by code_simp
  have i: "indexOf (trim ''The library can answer this.'') CHR ''{'' = None"
    by code_simp
  from classifyStores_invariant_unless_parsed [OF h] show ?thesis
    using h g p i by (simp add: all_stores_def)
qed

text \<open>
  Claim C5 says that the classifier never throws and that it returns the all-stores
  fallback whenever the model output cannot be parsed or the call fails. The empty
  output cannot be parsed, yet the code answers it with an empty selection.
\<close>

theorem classifyStores_empty_output_counterexample:
  "unparsable (parseJSON silent_env) []
   \<and> classifyStores silent_env (Some ''key'') [''library''] ''When does the library open?''
       = Inr no_stores
   \<and> no_stores \<noteq> all_stores [''library'']"
  by code_simp

text \<open>
  Claim C5, amended: \<^verbatim>\<open>classifyStores\<close> never throws past its boundary. It returns the
  all-stores fallback (all input stores, no split questions, nothing unanswered) when
  the API key is missing, when the model or transport call throws, and when the model's
  output is not empty and cannot be parsed, neither strictly nor between the first \<^verbatim>\<open>{\<close>
  and the last \<^verbatim>\<open>}\<close>. When the model's output is empty it returns the empty selection.
\<close>

theorem classifyStores_never_throws_and_falls_back:
  "(\<exists>result. classifyStores env geminiKey stores question = Inr result)
   \<and> (\<not> present geminiKey \<longrightarrow>
        classifyStores env geminiKey stores question = Inr (all_stores stores))
   \<and> (\<forall>key. geminiKey = Some key \<and> key \<noteq> [] \<longrightarrow>
        (case getGenerativeModel env ''gemini-1.5-flash'' of
           Some modelErr \<Rightarrow>
             classifyStores env geminiKey stores question = Inr (all_stores stores)
         | None \<Rightarrow>
        (case generateContent env key ''gemini-1.5-flash'' (Classify stores question) of
           GenThrew err \<Rightarrow>
             classifyStores env geminiKey stores question = Inr (all_stores stores)
         | GenText txt \<Rightarrow>
             (txt \<noteq> [] \<and> unparsable (parseJSON env) (trim txt) \<longrightarrow>
                classifyStores env geminiKey stores question = Inr (all_stores stores))
             \<and> (txt = [] \<longrightarrow>
                  classifyStores env geminiKey stores question = Inr no_stores))))"
  by (auto simp add: classifyStores_cases present_def unparsable_def
           split: option.splits gen_outcome.splits prod.splits)

text \<open>
  The amended claim at a model that answers in prose, without an API key, at a model
  whose call throws, and at a model that answers with nothing.
\<close>

theorem classifyStores_never_throws_and_falls_back_witness:
  "unparsable (parseJSON prose_env) (trim ''The library can answer this.'')
   \<and> classifyStores prose_env (Some ''key'') [''library''] the_question
       = Inr (all_stores [''library''])
   \<and> classifyStores prose_env None [''library''] the_question = Inr (all_stores [''library''])
   \<and> classifyStores denied_env (Some ''key'') [''library''] the_question
       = Inr (all_stores [''library''])
   \<and> classifyStores silent_env (Some ''key'') [''library''] the_question = Inr no_stores"
proof -
  have a: "\<And>e. e \<in> {prose_env, denied_env, silent_env} \<Longrightarrow>
             getGenerativeModel e ''gemini-1.5-flash'' = None"
    by (auto simp add: prose_env_def denied_env_def silent_env_def demo_env_def)
  have g: "generateContent prose_env ''key'' ''gemini-1.5-flash''
             (Classify [''library''] the_question) = GenText ''The library can answer this.''"
    by (simp add: prose_env_def demo_env_def)
  have u: "unparsable (parseJSON prose_env) (trim ''The library can answer this.'')"
    by code_simp
  have d: "generateContent denied_env ''key'' ''gemini-1.5-flash''
             (Classify [''library''] the_question)
           = GenThrew (Error ''API key not valid. Please pass a valid API key.'')"
    by (simp add: denied_env_def demo_env_def)
  have s: "generateContent silent_env ''key'' ''gemini-1.5-flash''
             (Classify [''library''] the_question) = GenText []"
    by (simp add: silent_env_def demo_env_def)
  from classifyStores_never_throws_and_falls_back
         [of prose_env "Some ''key''" "[''library'']" the_question]
  have 1: "classifyStores prose_env (Some ''key'') [''library''] the_question
           = Inr (all_stores [''library''])"
    using g u a by simp
  from classifyStores_never_throws_and_falls_back
         [of prose_env None "[''library'']" the_question]
  have 2: "classifyStores prose_env None [''library''] the_question
           = Inr (all_stores [''library''])"
    by (simp add: present_def)
  from classifyStores_never_throws_and_falls_back
         [of denied_env "Some ''key''" "[''library'']" the_question]
  have 3: "classifyStores denied_env (Some ''key'') [''library''] the_question
           = Inr (all_stores [''library''])"
    using d a by simp
  from classifyStores_never_throws_and_falls_back
         [of silent_env "Some ''key''" "[''library'']" the_question]
  have 4: "classifyStores silent_env (Some ''key'') [''library''] the_question = Inr no_stores"
    using s a by simp
  from u 1 2 3 4 show ?thesis by blast
qed

section \<open>The retrieval loop\<close>

text \<open>
  As long as every sub-question can be logged and no call fails cleanly, the loop
  consumes its stores one by one, adding the entries, the evidence texts and one call
  for each.
\<close>

lemma length_responses [simp]: "length (responses env k sq q n names) = length names"
  by (induction names arbitrary: n) simp_all

lemma responses_append:
  "responses env k sq q n (xs @ ys) =
   responses env k sq q n xs @ responses env k sq q (n + length xs) ys"
  by (induction xs arbitrary: n) simp_all

lemma loggable_append:
  "loggable env sq q (xs @ ys) = (loggable env sq q xs \<and> loggable env sq q ys)"
  by (simp add: loggable_def)

lemma rag_loop_step:
  assumes "print_error (qForStore env sq q name) = None"
    and "\<not> clean_failure (askQuestion env (length calls) k (JStr name) (qForStore env sq q name))"
  shows "rag_loop env k sq q (JStr name # rest) rs g calls =
         rag_loop env k sq q rest
           (rs @ entries_of name
                   (askQuestion env (length calls) k (JStr name) (qForStore env sq q name)))
           (g @ texts_of
                  (askQuestion env (length calls) k (JStr name) (qForStore env sq q name)))
           (calls @ [(JStr name, qForStore env sq q name)])"
proof (cases "askQuestion env (length calls) k (JStr name) (qForStore env sq q name)")
  case (RagThrew err)
  with assms(1) show ?thesis
    by (simp add: Let_def entries_of_def texts_of_def chunks_of_def)
next
  case (RagReturned ragResp)
  with assms(2) obtain d where d: "usable_data ragResp = Some d"
    by (auto simp: clean_failure_def)
  show ?thesis
    using assms(1) RagReturned d
    by (simp add: Let_def entries_of_def texts_of_def chunks_of_def answer_text_def
          split_beta)
qed

lemma rag_loop_prefix:
  assumes "loggable env sq q pre"
    and "list_all (\<lambda>out. \<not> clean_failure out) (responses env k sq q (length calls) pre)"
  shows "rag_loop env k sq q (map JStr pre @ rest) rs g calls =
         rag_loop env k sq q rest
           (rs @ concat (map2 entries_of pre (responses env k sq q (length calls) pre)))
           (g @ concat (map texts_of (responses env k sq q (length calls) pre)))
           (calls @ map (\<lambda>name. (JStr name, qForStore env sq q name)) pre)"
  using assms
proof (induction pre arbitrary: rs g calls)
  case Nil
  then show ?case by simp
next
  case (Cons name pre)
  let ?q = "qForStore env sq q name"
  let ?out = "askQuestion env (length calls) k (JStr name) ?q"
  from Cons.prems have pr: "print_error ?q = None" and lg: "loggable env sq q pre"
    by (simp_all add: loggable_def)
  from Cons.prems have ok: "\<not> clean_failure ?out"
    and tail: "list_all (\<lambda>out. \<not> clean_failure out)
                 (responses env k sq q (length (calls @ [(JStr name, ?q)])) pre)"
    by simp_all
  have "rag_loop env k sq q (map JStr (name # pre) @ rest) rs g calls =
        rag_loop env k sq q (map JStr pre @ rest) (rs @ entries_of name ?out)
          (g @ texts_of ?out) (calls @ [(JStr name, ?q)])"
    using rag_loop_step [OF pr ok] by simp
  also have "\<dots> =
        rag_loop env k sq q rest
          ((rs @ entries_of name ?out)
           @ concat (map2 entries_of pre
                       (responses env k sq q (length (calls @ [(JStr name, ?q)])) pre)))
          ((g @ texts_of ?out)
           @ concat (map texts_of
                       (responses env k sq q (length (calls @ [(JStr name, ?q)])) pre)))
          ((calls @ [(JStr name, ?q)])
           @ map (\<lambda>name. (JStr name, qForStore env sq q name)) pre)"
    by (rule Cons.IH [OF lg tail])
  finally show ?case by simp
qed

lemma rag_loop_completed:
  assumes "loggable env sq q names"
    and "list_all (\<lambda>out. \<not> clean_failure out) (responses env k sq q 0 names)"
  shows "rag_loop env k sq q (map JStr names) [] [] [] =
         Completed (concat (map2 entries_of names (responses env k sq q 0 names)))
           (concat (map texts_of (responses env k sq q 0 names)))
           (map (\<lambda>name. (JStr name, qForStore env sq q name)) names)"
  using rag_loop_prefix [of env sq q names k "[]" "[]" "[]" "[]"] assms by simp

lemma rag_loop_aborted:
  assumes "loggable env sq q (pre @ [name])"
    and "list_all (\<lambda>out. \<not> clean_failure out) (responses env k sq q 0 pre)"
    and "clean_failure (askQuestion env (length pre) k (JStr name) (qForStore env sq q name))"
  shows "rag_loop env k sq q (map JStr (pre @ name # post)) [] [] [] =
         Aborted (JStr name) (qForStore env sq q name)
           (map (\<lambda>name. (JStr name, qForStore env sq q name)) (pre @ [name]))"
proof -
  from assms(3) obtain ragResp where
    r: "askQuestion env (length pre) k (JStr name) (qForStore env sq q name)
        = RagReturned ragResp"
    and u: "usable_data ragResp = None"
    by (cases "askQuestion env (length pre) k (JStr name) (qForStore env sq q name)")
       (auto simp: clean_failure_def)
  from assms(1) have lg: "loggable env sq q pre"
    and pr: "print_error (qForStore env sq q name) = None"
    by (simp_all add: loggable_def)
  show ?thesis
    using rag_loop_prefix [of env sq q pre k "[]" "JStr name # map JStr post" "[]" "[]"]
      lg assms(2) pr r u
    by (simp add: Let_def)
qed

lemma succeeded_not_clean_failure: "succeeded out \<Longrightarrow> \<not> clean_failure out"
  by (auto simp: succeeded_def clean_failure_def split: rag_outcome.splits)

lemma all_succeeded_no_failure:
  "list_all succeeded outs \<Longrightarrow> list_all (\<lambda>out. \<not> clean_failure out) outs"
  by (induction outs) (simp_all add: succeeded_not_clean_failure)

lemma entries_of_succeeded:
  "succeeded out \<Longrightarrow>
   entries_of name out =
     [\<lparr> r_store = JStr name, r_name = name, r_answerText = answer_text out,
        r_groundingChunks = chunks_of out \<rparr>]"
  by (auto simp: succeeded_def entries_of_def split: rag_outcome.splits)

lemma entries_succeeded:
  assumes "length names = length outs" and "list_all succeeded outs"
  shows "concat (map2 entries_of names outs) =
         map2 (\<lambda>name out. \<lparr> r_store = JStr name, r_name = name,
                             r_answerText = answer_text out,
                             r_groundingChunks = chunks_of out \<rparr>) names outs"
  using assms
  by (induction names outs rule: list_induct2) (simp_all add: entries_of_succeeded)

lemma labelled_succeeded:
  assumes "length names = length outs"
  shows "map labelled
           (map2 (\<lambda>name out. \<lparr> r_store = JStr name, r_name = name,
                               r_answerText = answer_text out,
                               r_groundingChunks = chunks_of out \<rparr>) names outs) =
         map2 (\<lambda>name out. ''**'' @ name @ ''**:'' @ newline @ answer_text out) names outs"
  using assms
  by (induction names outs rule: list_induct2) (simp_all add: labelled_def)

lemma js_length_nonempty: "selected \<noteq> [] \<Longrightarrow> js_length (JArr selected) \<noteq> Some (JNum 0)"
  by (simp add: js_length_def)

section \<open>The handler in campus mode\<close>

lemma ask_campus:
  assumes "campus_request env req email question student accessible"
    and "accessible \<noteq> []"
    and "selection env student accessible question = Some (predictedStores, splitQuestions, unanswered)"
  shows "ask env req =
         (let isNewSession = fst (session_for env (q_sessionId req));
              currentSessionId = snd (session_for env (q_sessionId req))
          in if js_length predictedStores = Some (JNum 0)
             then no_departments env email question isNewSession currentSessionId unanswered
             else
               (case iterate predictedStores of
                  Inl err \<Rightarrow> (reply 500 (internal_error env err)) \<lparr> classified := True \<rparr>
                | Inr selected \<Rightarrow>
                    after_loop env accessible email question isNewSession currentSessionId
                      predictedStores splitQuestions
                      (rag_loop env (resolve_key env student) splitQuestions question selected
                         [] [] [])))"
  using assms
  by (auto simp add: campus_request_def selection_def ask_def campus_search_def
        answer_classified_def Let_def split_beta
        split: sum.splits option.splits)

lemma ask_selected:
  assumes "campus_request env req email question student accessible"
    and "accessible \<noteq> []"
    and "selection env student accessible question
           = Some (JArr (map JStr names), splitQuestions, unanswered)"
    and "names \<noteq> []"
  shows "ask env req =
         after_loop env accessible email question (fst (session_for env (q_sessionId req)))
           (snd (session_for env (q_sessionId req))) (JArr (map JStr names)) splitQuestions
           (rag_loop env (resolve_key env student) splitQuestions question (map JStr names)
              [] [] [])"
proof -
  have "map JStr names \<noteq> []" using assms(4) by simp
  from ask_campus [OF assms(1,2,3)] js_length_nonempty [OF this]
  show ?thesis by (simp add: Let_def iterate_def)
qed

lemma ask_completed:
  assumes "campus_request env req email question student accessible"
    and "accessible \<noteq> []"
    and "selection env student accessible question
           = Some (JArr (map JStr names), splitQuestions, unanswered)"
    and "names \<noteq> []"
    and "loggable env splitQuestions question names"
    and "list_all (\<lambda>out. \<not> clean_failure out)
           (responses env (resolve_key env student) splitQuestions question 0 names)"
  shows "ask env req =
         merged env accessible email question (fst (session_for env (q_sessionId req)))
           (snd (session_for env (q_sessionId req))) (JArr (map JStr names)) splitQuestions
           (concat (map2 entries_of names
              (responses env (resolve_key env student) splitQuestions question 0 names)))
           (concat (map texts_of
              (responses env (resolve_key env student) splitQuestions question 0 names)))
           (map (\<lambda>name. (JStr name, qForStore env splitQuestions question name)) names)"
  using ask_selected [OF assms(1,2,3,4)] rag_loop_completed [OF assms(5,6)]
  by (simp add: after_loop_def)

text \<open>
  Claim C2: in a campus-mode request in which the retrieval succeeds for every selected
  store, the answer of the response is that store's answer text, unmodified, when
  exactly one store was selected, and when two or more stores were selected it is the
  sections \<^verbatim>\<open>**<store>**:\n<answerText>\<close>, one per store in the order the classifier
  returned the stores, joined by a blank line. The selected stores are strings and
  their sub-questions can be logged; a retrieval succeeds when it returns a success
  indicator and data whose evidence chunks are not \<^verbatim>\<open>null\<close>.
\<close>

theorem merged_answer:
  assumes "campus_request env req email question student accessible"
    and "accessible \<noteq> []"
    and "selection env student accessible question
           = Some (JArr (map JStr names), splitQuestions, unanswered)"
    and "names \<noteq> []"
    and "loggable env splitQuestions question names"
    and "outs = responses env (resolve_key env student) splitQuestions question 0 names"
    and "list_all succeeded outs"
  shows "status (ask env req) = 200
         \<and> (\<forall>name. names = [name] \<longrightarrow>
              field (body (ask env req)) ''answer'' = Inr (Some (JStr (answer_text (hd outs)))))
         \<and> (2 \<le> length names \<longrightarrow>
              field (body (ask env req)) ''answer'' =
                Inr (Some (JStr (join (newline @ newline)
                  (map2 (\<lambda>name out. ''**'' @ name @ ''**:'' @ newline @ answer_text out)
                     names outs)))))"
proof -
  let ?entries = "map2 (\<lambda>name out. \<lparr> r_store = JStr name, r_name = name,
                                      r_answerText = answer_text out,
                                      r_groundingChunks = chunks_of out \<rparr>) names outs"
  have nf: "list_all (\<lambda>out. \<not> clean_failure out)
              (responses env (resolve_key env student) splitQuestions question 0 names)"
    using assms(6,7) by (simp add: all_succeeded_no_failure)
  have len: "length names = length outs" using assms(6) by simp
  have ans: "status (ask env req) = 200
             \<and> field (body (ask env req)) ''answer'' =
                 Inr (Some (JStr (merge_results ?entries)))"
    using ask_completed [OF assms(1,2,3,4,5) nf] assms(6) entries_succeeded [OF len assms(7)]
    by (simp add: merged_def field_def Let_def)
  have one: "\<And>name. names = [name] \<Longrightarrow> merge_results ?entries = answer_text (hd outs)"
  proof -
    fix name assume n: "names = [name]"
    with len obtain out where o: "outs = [out]" by (cases outs) auto
    show "merge_results ?entries = answer_text (hd outs)"
      using n o by (simp add: merge_results_def)
  qed
  have many: "2 \<le> length names \<Longrightarrow>
              merge_results ?entries =
              join (newline @ newline)
                (map2 (\<lambda>name out. ''**'' @ name @ ''**:'' @ newline @ answer_text out)
                   names outs)"
  proof -
    assume two: "2 \<le> length names"
    then obtain a b rest where n: "names = a # b # rest"
      by (cases names; cases "tl names") auto
    with len obtain x y more where o: "outs = x # y # more"
      by (cases outs; cases "tl outs") auto
    have "merge_results ?entries = join (newline @ newline) (map labelled ?entries)"
      using n o by (simp add: merge_results_def)
    also have "map labelled ?entries =
               map2 (\<lambda>name out. ''**'' @ name @ ''**:'' @ newline @ answer_text out) names outs"
      by (rule labelled_succeeded [OF len])
    finally show ?thesis .
  qed
  show ?thesis using ans one many by simp
qed

text \<open>
  Claim C2 at a request for which the model selects \<^verbatim>\<open>library\<close> and \<^verbatim>\<open>finance\<close> and both
  retrievals succeed, and at a request for which \<^verbatim>\<open>library\<close> alone is selected.
\<close>

theorem merged_answer_witness:
  "campus_request both_env campus_req ''ana@uni.edu'' the_question
     (demo_student [library_ref, finance_ref]) [library_ref, finance_ref]
   \<and> loggable both_env
        (JObj [(''library'', JStr ''When does the library open?''),
               (''finance'', JStr ''What do I owe?'')])
        the_question [''library'', ''finance'']
   \<and> list_all succeeded
        (responses both_env (resolve_key both_env (demo_student [library_ref, finance_ref]))
           (JObj [(''library'', JStr ''When does the library open?''),
                  (''finance'', JStr ''What do I owe?'')])
           the_question 0 [''library'', ''finance''])
   \<and> status (ask both_env campus_req) = 200
   \<and> field (body (ask both_env campus_req)) ''answer'' =
       Inr (Some (JStr (''**library**:'' @ newline @ ''Open 8 to 20.'' @ newline @ newline
                        @ ''**finance**:'' @ newline @ ''You owe 40.'')))
   \<and> campus_request archive_env campus_req ''ana@uni.edu'' the_question
       (demo_student [library_ref]) [library_ref]
   \<and> list_all succeeded
        (responses archive_env (resolve_key archive_env (demo_student [library_ref]))
           (JObj []) the_question 0 [''library''])
   \<and> field (body (ask archive_env campus_req)) ''answer'' = Inr (Some (JStr ''See the archive.''))"
proof -
  let ?st = "demo_student [library_ref, finance_ref]"
  let ?sq = "JObj [(''library'', JStr ''When does the library open?''),
                   (''finance'', JStr ''What do I owe?'')]"
  let ?outs = "responses both_env (resolve_key both_env ?st) ?sq the_question 0
                 [''library'', ''finance'']"
  have h1: "campus_request both_env campus_req ''ana@uni.edu'' the_question ?st
              [library_ref, finance_ref]"
    by code_simp
  have h2: "[library_ref, finance_ref] \<noteq> []" by simp
  have h3: "selection both_env ?st [library_ref, finance_ref] the_question
            = Some (JArr (map JStr [''library'', ''finance'']), ?sq, JArr [])"
    by code_simp
  have h4: "[''library'', ''finance''] \<noteq> []" by simp
  have h5: "loggable both_env ?sq the_question [''library'', ''finance'']" by code_simp
  have h7: "list_all succeeded ?outs" by code_simp
  have ev: "join (newline @ newline)
              (map2 (\<lambda>name out. ''**'' @ name @ ''**:'' @ newline @ answer_text out)
                 [''library'', ''finance''] ?outs)
            = ''**library**:'' @ newline @ ''Open 8 to 20.'' @ newline @ newline
              @ ''**finance**:'' @ newline @ ''You owe 40.''"
    by code_simp
  from merged_answer [OF h1 h2 h3 h4 h5 refl h7]
  have "status (ask both_env campus_req) = 200
        \<and> field (body (ask both_env campus_req)) ''answer'' =
            Inr (Some (JStr (join (newline @ newline)
              (map2 (\<lambda>name out. ''**'' @ name @ ''**:'' @ newline @ answer_text out)
                 [''library'', ''finance''] ?outs))))"
    by simp
  with ev have two: "status (ask both_env campus_req) = 200
     \<and> field (body (ask both_env campus_req)) ''answer'' =
       Inr (Some (JStr (''**library**:'' @ newline @ ''Open 8 to 20.'' @ newline @ newline
                        @ ''**finance**:'' @ newline @ ''You owe 40.'')))"
    by simp
  let ?one = "demo_student [library_ref]"
  let ?single = "responses archive_env (resolve_key archive_env ?one) (JObj []) the_question 0
                   [''library'']"
  have k1: "campus_request archive_env campus_req ''ana@uni.edu'' the_question ?one
              [library_ref]"
    by code_simp
  have k2: "[library_ref] \<noteq> []" by simp
  have k3: "selection archive_env ?one [library_ref] the_question
            = Some (JArr (map JStr [''library'']), JObj [], JArr [])"
    by code_simp
  have k4: "[''library''] \<noteq> []" by simp
  have k5: "loggable archive_env (JObj []) the_question [''library'']" by code_simp
  have k7: "list_all succeeded ?single" by code_simp
  have kv: "answer_text (hd ?single) = ''See the archive.''" by code_simp
  from merged_answer [OF k1 k2 k3 k4 k5 refl k7]
  have "field (body (ask archive_env campus_req)) ''answer''
        = Inr (Some (JStr (answer_text (hd ?single))))"
    by simp
  with kv have one: "field (body (ask archive_env campus_req)) ''answer''
                     = Inr (Some (JStr ''See the archive.''))"
    by simp
  from h1 h5 h7 two k1 k7 one show ?thesis by blast
qed

text \<open>
  Claim C3 says that the first selected store whose retrieval returns no success
  indicator or no data ends the request with the fixed answer, with \<^verbatim>\<open>failedStore\<close> naming
  the store and \<^verbatim>\<open>searchedIn\<close> its provider's account email, that no later store is
  queried, and that a provider-log entry with the error \<^verbatim>\<open>RAG call failed\<close> is appended.
  When the model selects a store that is not among the user's stores, the code knows no
  provider: \<^verbatim>\<open>searchedIn\<close> is \<^verbatim>\<open>null\<close> and the detached task has no provider log to write.
\<close>

theorem unknown_store_failure_counterexample:
  "clean_failure (askQuestion gym_env 0 (Some ''key'') (JStr ''gym'') (Data (JStr the_question)))
   \<and> rag_calls (ask gym_env campus_req) = [(JStr ''gym'', Data (JStr the_question))]
   \<and> field (body (ask gym_env campus_req)) ''failedStore'' = Inr (Some (JStr ''gym''))
   \<and> field (body (ask gym_env campus_req)) ''searchedIn'' = Inr (Some JNull)
   \<and> filter is_provider_log (background (ask gym_env campus_req)) = []"
  by code_simp

text \<open>
  Claim C3, amended: in a campus-mode request whose selected stores are strings, the
  first store whose retrieval returns no success indicator or no data, the sub-questions
  up to it being loggable, ends the request: the response has status 200, its answer is
  exactly "Sorry we didn't find any information related to this.", \<^verbatim>\<open>failedStore\<close> is that
  store, and the stores after it are not queried. \<^verbatim>\<open>searchedIn\<close> is the account email of
  the first of the user's store references with that name, and \<^verbatim>\<open>null\<close> when the user has
  no such reference or it has no account email. The detached task then goes through
  these writes, in this order and as long as none of them throws: the creation of the
  session file when the session is new; the append to the session of the turn, with
  the question, the fixed answer, that store as \<^verbatim>\<open>storesUsed\<close>, \<^verbatim>\<open>searchedIn\<close> and
  \<^verbatim>\<open>ragError\<close>; and, unless \<^verbatim>\<open>searchedIn\<close> is \<^verbatim>\<open>null\<close>, the append to the log of that account
  of an entry with the store, its sub-question, the response \<^verbatim>\<open>null\<close> and the error
  \<^verbatim>\<open>RAG call failed\<close>.
\<close>

theorem clean_failure_short_circuits:
  assumes "campus_request env req email question student accessible"
    and "accessible \<noteq> []"
    and "selection env student accessible question
           = Some (JArr (map JStr (pre @ store # post)), splitQuestions, unanswered)"
    and "loggable env splitQuestions question (pre @ [store])"
    and "list_all (\<lambda>out. \<not> clean_failure out)
           (responses env (resolve_key env student) splitQuestions question 0 pre)"
    and "clean_failure (askQuestion env (length pre) (resolve_key env student) (JStr store)
                          (qForStore env splitQuestions question store))"
    and "currentSessionId = snd (session_for env (q_sessionId req))"
    and "searchedIn = provider_of accessible (JStr store)"
  shows "status (ask env req) = 200
         \<and> body (ask env req) =
             JObj [(''sessionId'', JStr currentSessionId),
                   (''answer'', JStr (''Sorry we didn'' @ [CHR 0x27]
                                      @ ''t find any information related to this.'')),
                   (''searchedIn'', opt_str searchedIn),
                   (''isCampusSearch'', JBool True),
                   (''failedStore'', JStr store)]
         \<and> rag_calls (ask env req) =
             map (\<lambda>name. (JStr name, qForStore env splitQuestions question name))
               (pre @ [store])
         \<and> background (ask env req) =
             create_if_new (fst (session_for env (q_sessionId req))) email
               currentSessionId question
             @ [AppendMessage email currentSessionId
                  (JObj [(''role'', JStr ''assistant''),
                         (''question'', JStr question),
                         (''answer'', JStr (''Sorry we didn'' @ [CHR 0x27]
                                            @ ''t find any information related to this.'')),
                         (''storesUsed'', JArr [JStr store]),
                         (''grounding'', JArr []),
                         (''timestamp'', JStr (now env)),
                         (''searchedIn'', opt_str searchedIn),
                         (''isCampusSearch'', JBool True),
                         (''method'', JStr ''campus_search''),
                         (''ragError'', JBool True)])]
             @ (case searchedIn of
                  None \<Rightarrow> []
                | Some provider \<Rightarrow>
                    [AppendProviderLog provider
                       (JObj ([(''provider_email'', JStr provider),
                               (''user_email'', JStr email),
                               (''store_name'', JStr store)]
                              @ written_property ''question''
                                  (qForStore env splitQuestions question store)
                              @ [(''response'', JNull),
                                 (''asked_at'', JStr (now env)),
                                 (''isCampusSearch'', JBool True),
                                 (''error'', JStr ''RAG call failed'')]))])"
proof -
  have ne: "pre @ store # post \<noteq> []" by simp
  have "ask env req =
        rag_failed env accessible email question (fst (session_for env (q_sessionId req)))
          currentSessionId (JStr store) (qForStore env splitQuestions question store)
          (map (\<lambda>name. (JStr name, qForStore env splitQuestions question name))
             (pre @ [store]))"
    using ask_selected [OF assms(1,2,3) ne] rag_loop_aborted [OF assms(4,5,6)] assms(7)
    by (simp add: after_loop_def)
  then show ?thesis
    using assms(8) by (simp add: rag_failed_def Let_def)
qed

text \<open>
  The amended claim at three stores of which the second returns without data: the first
  two are queried, the third is not, and the detached task ends with the entry for the
  log of the finance provider.
\<close>

theorem clean_failure_short_circuits_witness:
  "campus_request broken_env campus_req ''ana@uni.edu'' the_question (demo_student three_refs)
     three_refs
   \<and> selection broken_env (demo_student three_refs) three_refs the_question
       = Some (JArr (map JStr ([''library''] @ ''finance'' # [''sports''])), JObj [], JArr [])
   \<and> loggable broken_env (JObj []) the_question ([''library''] @ [''finance''])
   \<and> clean_failure (askQuestion broken_env 1 None (JStr ''finance'') (Data (JStr the_question)))
   \<and> status (ask broken_env campus_req) = 200
   \<and> field (body (ask broken_env campus_req)) ''failedStore'' = Inr (Some (JStr ''finance''))
   \<and> field (body (ask broken_env campus_req)) ''searchedIn'' = Inr (Some (JStr ''fin@uni.edu''))
   \<and> rag_calls (ask broken_env campus_req)
       = [(JStr ''library'', Data (JStr the_question)),
          (JStr ''finance'', Data (JStr the_question))]
   \<and> filter is_provider_log (background (ask broken_env campus_req))
       = [AppendProviderLog ''fin@uni.edu''
            (JObj [(''provider_email'', JStr ''fin@uni.edu''),
                   (''user_email'', JStr ''ana@uni.edu''),
                   (''store_name'', JStr ''finance''),
                   (''question'', JStr the_question),
                   (''response'', JNull),
                   (''asked_at'', JStr ''2024-05-01T10:00:00.000Z''),
                   (''isCampusSearch'', JBool True),
                   (''error'', JStr ''RAG call failed'')])]"
proof -
  let ?st = "demo_student three_refs"
  have h1: "campus_request broken_env campus_req ''ana@uni.edu'' the_question ?st three_refs"
    by code_simp
  have h2: "three_refs \<noteq> []" by code_simp
  have h3: "selection broken_env ?st three_refs the_question
            = Some (JArr (map JStr ([''library''] @ ''finance'' # [''sports''])),
                    JObj [], JArr [])"
    by code_simp
  have h4: "loggable broken_env (JObj []) the_question ([''library''] @ [''finance''])"
    by code_simp
  have h5: "list_all (\<lambda>out. \<not> clean_failure out)
              (responses broken_env (resolve_key broken_env ?st) (JObj []) the_question 0
                 [''library''])"
    by code_simp
  have h6: "clean_failure
              (askQuestion broken_env (length [''library'']) (resolve_key broken_env ?st)
                 (JStr ''finance'') (qForStore broken_env (JObj []) the_question ''finance''))"
    by code_simp
  have c: "clean_failure
             (askQuestion broken_env 1 None (JStr ''finance'') (Data (JStr the_question)))"
    by code_simp
  have p: "provider_of three_refs (JStr ''finance'') = Some ''fin@uni.edu''" by code_simp
  have q: "map (\<lambda>name. (JStr name, qForStore broken_env (JObj []) the_question name))
             ([''library''] @ [''finance''])
           = [(JStr ''library'', Data (JStr the_question)),
              (JStr ''finance'', Data (JStr the_question))]"
    by code_simp
  have qf: "qForStore broken_env (JObj []) the_question ''finance'' = Data (JStr the_question)"
    by code_simp
  have n: "now broken_env = ''2024-05-01T10:00:00.000Z''" by code_simp
  have cr: "\<And>b sid. filter is_provider_log (create_if_new b ''ana@uni.edu'' sid the_question) = []"
    by (simp add: create_if_new_def is_provider_log_def)
  from clean_failure_short_circuits [OF h1 h2 h3 h4 h5 h6 refl p [symmetric]]
  show ?thesis using h1 h3 h4 c q qf n cr
    by (simp add: opt_str_def is_provider_log_def field_def written_property_def)
qed

text \<open>
  Claim C4: when the retrieval call for a store throws, the exception is caught at that
  store: its entry in the result list carries the error text (\<^verbatim>\<open>Error processing\<close>, the
  store and the exception's message) and no evidence, and the handler goes on with the
  stores after it, as the loop over them with that entry appended. The selected stores
  are strings; the sub-questions of that store and of the stores before it can be
  logged, and no store before it failed cleanly.
\<close>

theorem exception_continues:
  assumes "campus_request env req email question student accessible"
    and "accessible \<noteq> []"
    and "selection env student accessible question
           = Some (JArr (map JStr (pre @ store # post)), splitQuestions, unanswered)"
    and "loggable env splitQuestions question (pre @ [store])"
    and "outs = responses env (resolve_key env student) splitQuestions question 0 pre"
    and "list_all (\<lambda>out. \<not> clean_failure out) outs"
    and "askQuestion env (length pre) (resolve_key env student) (JStr store)
           (qForStore env splitQuestions question store) = RagThrew err"
  shows "ask env req =
           after_loop env accessible email question
             (fst (session_for env (q_sessionId req)))
             (snd (session_for env (q_sessionId req)))
             (JArr (map JStr (pre @ store # post))) splitQuestions
             (rag_loop env (resolve_key env student) splitQuestions question (map JStr post)
                (concat (map2 entries_of pre outs) @
                   [\<lparr> r_store = JStr store, r_name = store,
                      r_answerText = ''Error processing '' @ store @ '': '' @ message err,
                      r_groundingChunks = [] \<rparr>])
                (concat (map texts_of outs))
                (map (\<lambda>name. (JStr name, qForStore env splitQuestions question name))
                   (pre @ [store])))"
proof -
  let ?k = "resolve_key env student"
  let ?out = "askQuestion env (length pre) ?k (JStr store)
                (qForStore env splitQuestions question store)"
  have ne: "pre @ store # post \<noteq> []" by simp
  have app: "responses env ?k splitQuestions question 0 (pre @ [store]) = outs @ [?out]"
    using assms(5) by (simp add: responses_append)
  have nf: "list_all (\<lambda>out. \<not> clean_failure out)
              (responses env ?k splitQuestions question
                 (length ([] :: (json \<times> js_value) list)) (pre @ [store]))"
    using assms(6,7) app by (simp add: clean_failure_def)
  have len: "length pre = length outs" using assms(5) by simp
  have quiet: "texts_of ?out = []"
    using assms(7) by (simp add: texts_of_def chunks_of_def)
  have entry: "entries_of store ?out = [error_entry (JStr store) store err]"
    using assms(7) by (simp add: entries_of_def)
  have "rag_loop env ?k splitQuestions question (map JStr (pre @ [store]) @ map JStr post)
          [] [] [] =
        rag_loop env ?k splitQuestions question (map JStr post)
          ([] @ concat (map2 entries_of (pre @ [store]) (outs @ [?out])))
          ([] @ concat (map texts_of (outs @ [?out])))
          ([] @ map (\<lambda>name. (JStr name, qForStore env splitQuestions question name))
                  (pre @ [store]))"
    using rag_loop_prefix [OF assms(4) nf, of "map JStr post" "[]" "[]"] app by simp
  then have loop: "rag_loop env ?k splitQuestions question (map JStr (pre @ store # post))
                     [] [] [] =
              rag_loop env ?k splitQuestions question (map JStr post)
                (concat (map2 entries_of pre outs) @ [error_entry (JStr store) store err])
                (concat (map texts_of outs))
                (map (\<lambda>name. (JStr name, qForStore env splitQuestions question name))
                   (pre @ [store]))"
    using len quiet entry by simp
  show ?thesis
    using ask_selected [OF assms(1,2,3) ne] loop
    by (simp add: error_entry_def)
qed

text \<open>
  Claim C4 at three stores of which the second throws: all three are queried and the
  answer has the error text as the second section.
\<close>

theorem exception_continues_witness:
  "campus_request shaky_env campus_req ''ana@uni.edu'' the_question (demo_student three_refs)
     three_refs
   \<and> loggable shaky_env (JObj []) the_question ([''library''] @ [''finance''])
   \<and> askQuestion shaky_env 1 None (JStr ''finance'') (Data (JStr the_question))
       = RagThrew (Error ''socket hang up'')
   \<and> status (ask shaky_env campus_req) = 200
   \<and> map fst (rag_calls (ask shaky_env campus_req))
       = [JStr ''library'', JStr ''finance'', JStr ''sports'']
   \<and> field (body (ask shaky_env campus_req)) ''answer'' =
       Inr (Some (JStr (''**library**:'' @ newline @ ''Open 8 to 20.'' @ newline @ newline
                        @ ''**finance**:'' @ newline
                        @ ''Error processing finance: socket hang up'' @ newline @ newline
                        @ ''**sports**:'' @ newline @ ''The gym opens at 7.'')))"
proof -
  let ?st = "demo_student three_refs"
  let ?outs = "responses shaky_env (resolve_key shaky_env ?st) (JObj []) the_question 0
                 [''library'']"
  have h1: "campus_request shaky_env campus_req ''ana@uni.edu'' the_question ?st three_refs"
    by code_simp
  have h2: "three_refs \<noteq> []" by code_simp
  have h3: "selection shaky_env ?st three_refs the_question
            = Some (JArr (map JStr ([''library''] @ ''finance'' # [''sports''])),
                    JObj [], JArr [])"
    by code_simp
  have h4: "loggable shaky_env (JObj []) the_question ([''library''] @ [''finance''])"
    by code_simp
  have h6: "list_all (\<lambda>out. \<not> clean_failure out) ?outs" by code_simp
  have h7: "askQuestion shaky_env (length [''library'']) (resolve_key shaky_env ?st)
              (JStr ''finance'') (qForStore shaky_env (JObj []) the_question ''finance'')
            = RagThrew (Error ''socket hang up'')"
    by code_simp
  have t: "askQuestion shaky_env 1 None (JStr ''finance'') (Data (JStr the_question))
           = RagThrew (Error ''socket hang up'')"
    by code_simp
  let ?end = "after_loop shaky_env three_refs ''ana@uni.edu'' the_question
                (fst (session_for shaky_env (q_sessionId campus_req)))
                (snd (session_for shaky_env (q_sessionId campus_req)))
                (JArr (map JStr ([''library''] @ ''finance'' # [''sports''])))
                (JObj [])
                (rag_loop shaky_env (resolve_key shaky_env ?st) (JObj []) the_question
                   (map JStr [''sports''])
                   (concat (map2 entries_of [''library''] ?outs) @
                      [\<lparr> r_store = JStr ''finance'', r_name = ''finance'',
                         r_answerText =
                           ''Error processing '' @ ''finance'' @ '': ''
                           @ message (Error ''socket hang up''),
                         r_groundingChunks = [] \<rparr>])
                   (concat (map texts_of ?outs))
                   (map (\<lambda>name. (JStr name, qForStore shaky_env (JObj []) the_question name))
                      ([''library''] @ [''finance''])))"
  have e: "ask shaky_env campus_req = ?end"
    by (rule exception_continues [OF h1 h2 h3 h4 refl h6 h7])
  have v: "status ?end = 200
           \<and> map fst (rag_calls ?end) = [JStr ''library'', JStr ''finance'', JStr ''sports'']
           \<and> field (body ?end) ''answer'' =
               Inr (Some (JStr (''**library**:'' @ newline @ ''Open 8 to 20.'' @ newline @ newline
                        @ ''**finance**:'' @ newline
                        @ ''Error processing finance: socket hang up'' @ newline @ newline
                        @ ''**sports**:'' @ newline @ ''The gym opens at 7.'')))"
    by code_simp
  show ?thesis using h1 h4 t v unfolding e by blast
qed

section \<open>The detached task\<close>

text \<open>
  The writes of the detached task are reached one after the other. At three stores of
  which the second returns without data, the log of the finance provider receives its
  entry when the session is new; for a session whose identifier contains a slash, the
  session file lies in a directory that does not exist, the append of the turn throws,
  and the log is not written.
\<close>

lemma detached_task_stops_at_first_throw:
  "files (run_background broken_env empty_disk (background (ask broken_env campus_req)))
     (path_join (PROVIDER_LOGS_DIR broken_env) ''fin@uni.edu.json'')
   = Some (Doc (JArr [JObj [(''provider_email'', JStr ''fin@uni.edu''),
                            (''user_email'', JStr ''ana@uni.edu''),
                            (''store_name'', JStr ''finance''),
                            (''question'', JStr the_question),
                            (''response'', JNull),
                            (''asked_at'', JStr ''2024-05-01T10:00:00.000Z''),
                            (''isCampusSearch'', JBool True),
                            (''error'', JStr ''RAG call failed'')]]))
   \<and> field (body (ask broken_env slash_req)) ''failedStore'' = Inr (Some (JStr ''finance''))
   \<and> filter is_provider_log (background (ask broken_env slash_req)) \<noteq> []
   \<and> files (run_background broken_env empty_disk (background (ask broken_env slash_req)))
       (path_join (PROVIDER_LOGS_DIR broken_env) ''fin@uni.edu.json'') = None
   \<and> files (run_background broken_env empty_disk (background (ask broken_env slash_req)))
       (getSessionFile broken_env ''ana@uni.edu'' ''a/b'') = None"
  by code_simp

section \<open>The handler's short answers\<close>


text \<open>
  Claim C6 says that a campus-mode request by a known user without accessible stores
  gets the answer "No RAG stores available for your account." with no stores used, that
  neither the classifier nor the retrieval is tried, and that the turn is recorded in
  the session transcript. The code returns before any session is resolved: the detached
  task does not run and nothing is written.
\<close>

theorem no_accessible_stores_counterexample:
  "campus_request nostore_env campus_req ''ana@uni.edu'' the_question (demo_student []) []
   \<and> field (body (ask nostore_env campus_req)) ''answer''
       = Inr (Some (JStr ''No RAG stores available for your account.''))
   \<and> background (ask nostore_env campus_req) = []"
  by code_simp

text \<open>
  Claim C6, amended: a campus-mode request by a known user whose list of accessible
  stores is empty is answered at once with status 200, the answer "No RAG stores
  available for your account.", \<^verbatim>\<open>storesUsed\<close> and \<^verbatim>\<open>grounding\<close> empty and \<^verbatim>\<open>sessionId\<close>
  \<^verbatim>\<open>null\<close>; neither the classifier nor the retrieval is tried, and nothing is persisted:
  the detached task has nothing to write, so session files and provider logs stay as
  they are.
\<close>

theorem no_accessible_stores:
  assumes "campus_request env req email question student []"
  shows "status (ask env req) = 200
         \<and> body (ask env req) =
             JObj [(''sessionId'', JNull),
                   (''answer'', JStr ''No RAG stores available for your account.''),
                   (''storesUsed'', JArr []),
                   (''grounding'', JArr []),
                   (''isCampusSearch'', JBool True)]
         \<and> \<not> classified (ask env req)
         \<and> rag_calls (ask env req) = []
         \<and> background (ask env req) = []
         \<and> (\<forall>stored. run_background env stored (background (ask env req)) = stored)"
  using assms
  by (auto simp add: campus_request_def ask_def campus_search_def reply_def Let_def
           split: option.splits)

text \<open>The amended claim at the student without stores.\<close>

theorem no_accessible_stores_witness:
  "campus_request nostore_env campus_req ''ana@uni.edu'' the_question (demo_student []) []
   \<and> status (ask nostore_env campus_req) = 200
   \<and> body (ask nostore_env campus_req) =
       JObj [(''sessionId'', JNull),
             (''answer'', JStr ''No RAG stores available for your account.''),
             (''storesUsed'', JArr []),
             (''grounding'', JArr []),
             (''isCampusSearch'', JBool True)]
   \<and> \<not> classified (ask nostore_env campus_req)
   \<and> rag_calls (ask nostore_env campus_req) = []
   \<and> background (ask nostore_env campus_req) = []"
proof -
  have h: "campus_request nostore_env campus_req ''ana@uni.edu'' the_question
             (demo_student []) []"
    by code_simp
  from no_accessible_stores [OF h] h show ?thesis by simp
qed





section \<open>Direct mode\<close>

text \<open>
  Claim C9: in a direct-mode request whose call of the generative model throws, the
  status is chosen from the text of the error's message, by the first of these that
  applies: 401 when it contains \<^verbatim>\<open>API key\<close> or \<^verbatim>\<open>auth\<close>, 429 when it contains \<^verbatim>\<open>quota\<close> or
  \<^verbatim>\<open>exceeded\<close>, 503 when it contains \<^verbatim>\<open>network\<close> or \<^verbatim>\<open>connect\<close>, 400 when it contains
  \<^verbatim>\<open>model\<close>, and 500 otherwise; the body carries an error message, the thrown message as
  \<^verbatim>\<open>details\<close>, and a suggestion.
\<close>

theorem direct_mode_error_mapping:
  assumes "q_email req = Some email" and "email \<noteq> []"
    and "q_question req = Some question" and "question \<noteq> []"
    and "readStudent env email = Some student"
    and "q_isCampusSearch req = Some ''false''"
    and "resolve_key env student = Some geminiKey"
    and "find (\<lambda>modelCandidate. getGenerativeModel env modelCandidate = None) modelsToTry
           = Some modelName"
    and "generateContent env geminiKey modelName (Prompt question) = GenThrew err"
    and "msg = message err"
  shows "status (ask env req) =
           (if str_includes msg ''API key'' \<or> str_includes msg ''auth'' then 401
            else if str_includes msg ''quota'' \<or> str_includes msg ''exceeded'' then 429
            else if str_includes msg ''network'' \<or> str_includes msg ''connect'' then 503
            else if str_includes msg ''model'' then 400
            else 500)
         \<and> (\<exists>errorMessage suggestion.
               body (ask env req) =
                 JObj [(''error'', JStr errorMessage),
                       (''details'', JStr msg),
                       (''suggestion'', JStr suggestion)])
         \<and> background (ask env req) = []"
  using assms
  by (simp add: ask_def direct_gemini_def gemini_error_def reply_def Let_def)

text \<open>Claim C9 at a model that rejects the API key.\<close>

theorem direct_mode_error_mapping_witness:
  "generateContent denied_env ''key'' ''gemini-1.5-flash'' (Prompt the_question)
     = GenThrew (Error ''API key not valid. Please pass a valid API key.'')
   \<and> status (ask denied_env direct_req) = 401
   \<and> (\<exists>errorMessage suggestion.
         body (ask denied_env direct_req) =
           JObj [(''error'', JStr errorMessage),
                 (''details'', JStr ''API key not valid. Please pass a valid API key.''),
                 (''suggestion'', JStr suggestion)])"
proof -
  have h1: "q_email direct_req = Some ''ana@uni.edu''" by code_simp
  have h2: "''ana@uni.edu'' \<noteq> []" by simp
  have h3: "q_question direct_req = Some the_question" by code_simp
  have h4: "the_question \<noteq> []" by code_simp
  have h5: "readStudent denied_env ''ana@uni.edu'' = Some (demo_student [library_ref])"
    by code_simp
  have h6: "q_isCampusSearch direct_req = Some ''false''" by code_simp
  have h7: "resolve_key denied_env (demo_student [library_ref]) = Some ''key''" by code_simp
  have h8: "find (\<lambda>modelCandidate. getGenerativeModel denied_env modelCandidate = None)
              modelsToTry = Some ''gemini-1.5-flash''"
    by code_simp
  have h9: "generateContent denied_env ''key'' ''gemini-1.5-flash'' (Prompt the_question)
            = GenThrew (Error ''API key not valid. Please pass a valid API key.'')"
    by code_simp
  have m: "str_includes ''API key not valid. Please pass a valid API key.'' ''API key''"
    by code_simp
  from direct_mode_error_mapping [OF h1 h2 h3 h4 h5 h6 h7 h8 h9 refl] h9 m
  show ?thesis by simp
qed

section \<open>Appending to a session\<close>










end
